theory Spec2Isabelle
  imports Complex_Main "HOL-Library.AList"
begin

section \<open>Data model (shared schema)\<close>

text \<open>
  A JavaScript \<open>Date\<close> is kept as its time value (milliseconds since the epoch).
  Row ids, file sizes and confidence scores are the schema's integer columns.
\<close>

type_synonym Date = int

record User =
  u_id :: int
  u_username :: string
  u_password :: string

record InsertMediaUpload =
  imu_filename :: string
  imu_filesize :: int
  imu_filetype :: string
  imu_userId :: "int option"

record MediaUpload =
  mu_id :: int
  mu_filename :: string
  mu_filesize :: int
  mu_filetype :: string
  mu_userId :: "int option"
  mu_uploadedAt :: Date
  mu_status :: string

record InsertDetectionModel =
  idm_name :: string
  idm_description :: string
  idm_type :: string
  idm_isActive :: bool

record DetectionModel =
  dm_id :: int
  dm_name :: string
  dm_description :: string
  dm_type :: string
  dm_isActive :: bool

datatype severity = high | medium | low

record anomaly =
  an_type :: string
  an_description :: string
  an_severity :: severity

text \<open>
  An entry of a \<open>manipulationTypes\<close> array is a JavaScript object. Objects are compared
  by identity (a \<open>Set\<close> uses SameValueZero), so every entry carries the address
  \<open>mt_ref\<close> at which it was allocated, next to its two fields.
\<close>

record manipulationType =
  mt_ref :: nat
  mt_type :: string
  mt_confidence :: int

record detailsData =
  dd_heatmapData :: "string option"
  dd_faceRegions :: "(string \<times> int) list option"
  dd_timelineData :: "(string \<times> int) list option"

record metadata =
  md_duration :: "string option"
  md_resolution :: "string option"

record technicalAnalysis =
  ta_compressionLevel :: string
  ta_compressionSuspicious :: bool
  ta_encodingFormat :: string
  ta_noisePattern :: string
  ta_noisePatternSuspicious :: bool
  ta_metadataConsistency :: string
  ta_metadataModified :: bool

text \<open>
  \<open>resultDetails\<close> is a jsonb column: every key may be absent (\<open>None\<close>), which is
  what the reads \<open>x || default\<close> and \<open>metadata?.duration\<close> of the aggregation guard.
\<close>

record resultDetails =
  rd_anomalies :: "anomaly list option"
  rd_manipulationTypes :: "manipulationType list option"
  rd_detailsData :: "detailsData option"
  rd_metadata :: "metadata option"
  rd_technicalAnalysis :: "technicalAnalysis option"

record InsertAnalysisResult =
  iar_mediaId :: int
  iar_modelId :: int
  iar_confidenceScore :: int
  iar_resultDetails :: resultDetails

record AnalysisResult =
  ar_id :: int
  ar_mediaId :: int
  ar_modelId :: int
  ar_confidenceScore :: int
  ar_resultDetails :: resultDetails
  ar_analyzedAt :: Date

record modelResult =
  mr_modelId :: int
  mr_modelName :: string
  mr_modelDescription :: string
  mr_confidenceScore :: int
  mr_anomalies :: "anomaly list"
  mr_detailsData :: detailsData

record fileInfo =
  fi_filename :: string
  fi_filesize :: int
  fi_filetype :: string
  fi_duration :: "string option"
  fi_resolution :: "string option"

text \<open>
  \<open>detectionTime\<close> is \<open>analyzedAt.toISOString()\<close> in the source; the rendering is a
  library call, and the response keeps the \<open>Date\<close> that is rendered.
\<close>

record AnalysisResponse =
  resp_mediaId :: int
  resp_filename :: string
  resp_filetype :: string
  resp_status :: string
  resp_overallConfidence :: int
  resp_isDeepfake :: bool
  resp_detectionTime :: Date
  resp_manipulationTypes :: "manipulationType list"
  resp_modelResults :: "modelResult list"
  resp_fileInfo :: fileInfo
  resp_technicalAnalysis :: technicalAnalysis

section \<open>In-memory storage (server/storage.ts)\<close>

text \<open>
  A JavaScript \<open>Map\<close> keeps its entries in insertion order, and \<open>set\<close> on a key that
  is present replaces the value in place. It is an association list: \<open>get\<close> is
  \<^const>\<open>map_of\<close>, \<open>set\<close> is \<^const>\<open>AList.update\<close>, \<open>values()\<close> is \<open>map snd\<close>.
\<close>

record MemStorage =
  users :: "(int \<times> User) list"
  mediaUploads :: "(int \<times> MediaUpload) list"
  detectionModels :: "(int \<times> DetectionModel) list"
  analysisResults :: "(int \<times> AnalysisResult) list"
  currentUserId :: int
  currentMediaId :: int
  currentModelId :: int
  currentAnalysisId :: int

definition values_of :: "('k \<times> 'v) list \<Rightarrow> 'v list" where
  "values_of m = map snd m"

definition getMediaUpload :: "MemStorage \<Rightarrow> int \<Rightarrow> MediaUpload option" where
  "getMediaUpload st i = map_of (mediaUploads st) i"

text \<open>\<open>new Date()\<close> is read from the clock: the caller passes it as \<open>now\<close>.\<close>

definition createMediaUpload ::
  "Date \<Rightarrow> InsertMediaUpload \<Rightarrow> MemStorage \<Rightarrow> MediaUpload \<times> MemStorage" where
  "createMediaUpload now upload st =
     (let i = currentMediaId st;
          mediaUpload = \<lparr>mu_id = i, mu_filename = imu_filename upload,
            mu_filesize = imu_filesize upload, mu_filetype = imu_filetype upload,
            mu_userId = imu_userId upload, mu_uploadedAt = now, mu_status = ''pending''\<rparr>
      in (mediaUpload,
          st\<lparr>currentMediaId := i + 1,
             mediaUploads := AList.update i mediaUpload (mediaUploads st)\<rparr>))"

definition updateMediaStatus ::
  "int \<Rightarrow> string \<Rightarrow> MemStorage \<Rightarrow> MediaUpload option \<times> MemStorage" where
  "updateMediaStatus i s st =
     (case getMediaUpload st i of
        None \<Rightarrow> (None, st)
      | Some mediaUpload \<Rightarrow>
          (let updatedUpload = mediaUpload\<lparr>mu_status := s\<rparr>
           in (Some updatedUpload,
               st\<lparr>mediaUploads := AList.update i updatedUpload (mediaUploads st)\<rparr>)))"

definition getDetectionModels :: "MemStorage \<Rightarrow> DetectionModel list" where
  "getDetectionModels st = values_of (detectionModels st)"

definition getDetectionModel :: "MemStorage \<Rightarrow> int \<Rightarrow> DetectionModel option" where
  "getDetectionModel st i = map_of (detectionModels st) i"

definition createDetectionModel ::
  "InsertDetectionModel \<Rightarrow> MemStorage \<Rightarrow> DetectionModel \<times> MemStorage" where
  "createDetectionModel model st =
     (let i = currentModelId st;
          detectionModel = \<lparr>dm_id = i, dm_name = idm_name model,
            dm_description = idm_description model, dm_type = idm_type model,
            dm_isActive = idm_isActive model\<rparr>
      in (detectionModel,
          st\<lparr>currentModelId := i + 1,
             detectionModels := AList.update i detectionModel (detectionModels st)\<rparr>))"

definition createAnalysisResult ::
  "Date \<Rightarrow> InsertAnalysisResult \<Rightarrow> MemStorage \<Rightarrow> AnalysisResult \<times> MemStorage" where
  "createAnalysisResult now result st =
     (let i = currentAnalysisId st;
          analysisResult = \<lparr>ar_id = i, ar_mediaId = iar_mediaId result,
            ar_modelId = iar_modelId result,
            ar_confidenceScore = iar_confidenceScore result,
            ar_resultDetails = iar_resultDetails result, ar_analyzedAt = now\<rparr>
      in (analysisResult,
          st\<lparr>currentAnalysisId := i + 1,
             analysisResults := AList.update i analysisResult (analysisResults st)\<rparr>))"

definition getAnalysisResultsByMediaId :: "MemStorage \<Rightarrow> int \<Rightarrow> AnalysisResult list" where
  "getAnalysisResultsByMediaId st mediaId =
     filter (\<lambda>result. ar_mediaId result = mediaId) (values_of (analysisResults st))"

definition getAnalysisById :: "MemStorage \<Rightarrow> int \<Rightarrow> AnalysisResult option" where
  "getAnalysisById st i = map_of (analysisResults st) i"

text \<open>The constructor: empty maps, counters at 1, then the four default models.\<close>

definition emptyStorage :: MemStorage where
  "emptyStorage = \<lparr>users = [], mediaUploads = [], detectionModels = [],
     analysisResults = [], currentUserId = 1, currentMediaId = 1, currentModelId = 1,
     currentAnalysisId = 1\<rparr>"

definition defaultModels :: "InsertDetectionModel list" where
  "defaultModels =
     [\<lparr>idm_name = ''FaceForensics++'',
       idm_description = ''Specialized in facial manipulation detection'',
       idm_type = ''both'', idm_isActive = True\<rparr>,
      \<lparr>idm_name = ''DeepFake Detection Challenge'',
       idm_description = ''Facebook's DFDC model for video analysis'',
       idm_type = ''video'', idm_isActive = True\<rparr>,
      \<lparr>idm_name = ''CNN-LSTM'',
       idm_description = ''Temporal inconsistency detection'',
       idm_type = ''video'', idm_isActive = True\<rparr>,
      \<lparr>idm_name = ''EfficientNet-B4'',
       idm_description = ''High-accuracy image classification'',
       idm_type = ''image'', idm_isActive = True\<rparr>]"

definition initDefaultModels :: "MemStorage \<Rightarrow> MemStorage" where
  "initDefaultModels st = fold (\<lambda>model s. snd (createDetectionModel model s)) defaultModels st"

definition newMemStorage :: MemStorage where
  "newMemStorage = initDefaultModels emptyStorage"

subsection \<open>Aggregation: \<open>getCompleteAnalysis\<close>\<close>

text \<open>
  A JavaScript number is an IEEE 754 double. A finite double is a rational, and every
  arithmetic operation returns the exact result rounded to the nearest double, a tie
  going to the one with the even significand. \<open>fl\<close> is that rounding: for \<open>x \<noteq> 0\<close>
  with \<open>2 ^ e \<le> \<bar>x\<bar> < 2 ^ (e + 1)\<close> the doubles around \<open>x\<close> are the multiples of
  \<open>2 ^ (e - 52)\<close>. The exponent is not limited: overflow to \<open>Infinity\<close> (beyond
  \<open>2 ^ 1024\<close>) and gradual underflow (below \<open>2 ^ - 1022\<close>) are left out. The columns
  are integers, so a stored score is an integer that is a double.
\<close>

fun floor_log2 :: "nat \<Rightarrow> nat" where
  "floor_log2 n = (if n < 2 then 0 else Suc (floor_log2 (n div 2)))"

declare floor_log2.simps [simp del]

text \<open>For \<open>x > 0\<close>, the integer \<open>e\<close> with \<open>2 ^ e \<le> x < 2 ^ (e + 1)\<close>.\<close>

definition exponent :: "rat \<Rightarrow> int" where
  "exponent x =
     (if 1 \<le> x then int (floor_log2 (nat \<lfloor>x\<rfloor>))
      else if nat \<lceil>1 / x\<rceil> \<le> 1 then 0
      else - int (Suc (floor_log2 (nat \<lceil>1 / x\<rceil> - 1))))"

definition roundTiesToEven :: "rat \<Rightarrow> int" where
  "roundTiesToEven x =
     (let f = \<lfloor>x\<rfloor>; d = x - of_int f
      in if d < 1 / 2 then f else if 1 / 2 < d then f + 1 else if even f then f else f + 1)"

definition fl :: "rat \<Rightarrow> rat" where
  "fl x = (if x = 0 then 0
           else let ulp = 2 powi (exponent \<bar>x\<bar> - 52)
                in of_int (roundTiesToEven (x / ulp)) * ulp)"

text \<open>
  \<open>Math.round\<close> returns the integer nearest to its argument, a tie going towards
  \<open>+\<infinity>\<close>; the result is exact.
\<close>

definition Math_round :: "rat \<Rightarrow> int" where
  "Math_round x = \<lfloor>x + 1 / 2\<rfloor>"

text \<open>
  \<open>Array.from(new Set(xs))\<close>: the elements are added in order and an element that is
  already in the set is skipped. The elements are objects, so "already in the set" is
  identity of the object, \<open>mt_ref\<close>.
\<close>

fun Set_add_all :: "manipulationType list \<Rightarrow> manipulationType list \<Rightarrow> manipulationType list" where
  "Set_add_all seen [] = seen"
| "Set_add_all seen (x # xs) =
     (if mt_ref x \<in> mt_ref ` set seen then Set_add_all seen xs
      else Set_add_all (seen @ [x]) xs)"

definition Array_from_Set :: "manipulationType list \<Rightarrow> manipulationType list" where
  "Array_from_Set xs = Set_add_all [] xs"

text \<open>
  \<open>Array.prototype.sort(cmp)\<close> is a stable sort: \<open>a\<close> stays before \<open>b\<close> unless
  \<open>cmp(a, b) > 0\<close>. A stable insertion sort computes the same array.
\<close>

fun insert_by :: "('a \<Rightarrow> 'a \<Rightarrow> int) \<Rightarrow> 'a \<Rightarrow> 'a list \<Rightarrow> 'a list" where
  "insert_by cmp x [] = [x]"
| "insert_by cmp x (y # ys) = (if cmp x y \<le> 0 then x # y # ys else y # insert_by cmp x ys)"

definition Array_sort :: "('a \<Rightarrow> 'a \<Rightarrow> int) \<Rightarrow> 'a list \<Rightarrow> 'a list" where
  "Array_sort cmp xs = foldr (insert_by cmp) xs []"

definition defaultTechnicalAnalysis :: technicalAnalysis where
  "defaultTechnicalAnalysis = \<lparr>ta_compressionLevel = ''Medium'',
     ta_compressionSuspicious = False, ta_encodingFormat = ''Unknown'',
     ta_noisePattern = ''Regular'', ta_noisePatternSuspicious = False,
     ta_metadataConsistency = ''Consistent'', ta_metadataModified = False\<rparr>"

text \<open>\<open>s || d\<close> on a string that may be absent: the empty string is falsy too.\<close>

definition str_or :: "string option \<Rightarrow> string \<Rightarrow> string" where
  "str_or s d = (case s of None \<Rightarrow> d | Some v \<Rightarrow> if v = [] then d else v)"

definition str_or_undefined :: "string option \<Rightarrow> string option" where
  "str_or_undefined s = (case s of None \<Rightarrow> None | Some v \<Rightarrow> if v = [] then None else Some v)"

definition toModelResult :: "MemStorage \<Rightarrow> AnalysisResult \<Rightarrow> modelResult" where
  "toModelResult st result =
     (let model = getDetectionModel st (ar_modelId result)
      in \<lparr>mr_modelId = ar_modelId result,
          mr_modelName = str_or (map_option dm_name model) ''Unknown Model'',
          mr_modelDescription = str_or (map_option dm_description model) [],
          mr_confidenceScore = ar_confidenceScore result,
          mr_anomalies = (case rd_anomalies (ar_resultDetails result) of
                            None \<Rightarrow> [] | Some a \<Rightarrow> a),
          mr_detailsData = (case rd_detailsData (ar_resultDetails result) of
                              None \<Rightarrow> \<lparr>dd_heatmapData = None, dd_faceRegions = None,
                                        dd_timelineData = None\<rparr>
                            | Some d \<Rightarrow> d)\<rparr>)"

definition manipulationTypes_of :: "AnalysisResult \<Rightarrow> manipulationType list" where
  "manipulationTypes_of result =
     (case rd_manipulationTypes (ar_resultDetails result) of None \<Rightarrow> [] | Some ms \<Rightarrow> ms)"

text \<open>
  The two early returns give \<open>undefined\<close> (\<open>None\<close>). After them the array is not
  empty, and \<open>analysisResults[0]\<close> is the \<open>first\<close> of the pattern.
\<close>

definition getCompleteAnalysis :: "MemStorage \<Rightarrow> int \<Rightarrow> AnalysisResponse option" where
  "getCompleteAnalysis st mediaId =
     (case getMediaUpload st mediaId of
        None \<Rightarrow> None
      | Some mediaUpload \<Rightarrow>
          (case getAnalysisResultsByMediaId st mediaId of
             [] \<Rightarrow> None
           | first # rest \<Rightarrow>
               (let analysisResults = first # rest;
                    overallConfidence = Math_round
                      (fl (foldl (\<lambda>sum result. fl (sum + of_int (ar_confidenceScore result)))
                             0 analysisResults
                           / of_nat (length analysisResults)));
                    modelResults = map (toModelResult st) analysisResults;
                    manipulationTypes = Array_sort (\<lambda>a b. mt_confidence b - mt_confidence a)
                      (Array_from_Set (concat (map manipulationTypes_of analysisResults)))
                in Some \<lparr>resp_mediaId = mediaId,
                     resp_filename = mu_filename mediaUpload,
                     resp_filetype = mu_filetype mediaUpload,
                     resp_status = mu_status mediaUpload,
                     resp_overallConfidence = overallConfidence,
                     resp_isDeepfake = (overallConfidence > 60),
                     resp_detectionTime = ar_analyzedAt first,
                     resp_manipulationTypes = manipulationTypes,
                     resp_modelResults = modelResults,
                     resp_fileInfo = \<lparr>fi_filename = mu_filename mediaUpload,
                       fi_filesize = mu_filesize mediaUpload,
                       fi_filetype = mu_filetype mediaUpload,
                       fi_duration = (case rd_metadata (ar_resultDetails first) of
                                        None \<Rightarrow> None
                                      | Some md \<Rightarrow> str_or_undefined (md_duration md)),
                       fi_resolution = (case rd_metadata (ar_resultDetails first) of
                                          None \<Rightarrow> None
                                        | Some md \<Rightarrow> str_or_undefined (md_resolution md))\<rparr>,
                     resp_technicalAnalysis =
                       (case rd_technicalAnalysis (ar_resultDetails first) of
                          None \<Rightarrow> defaultTechnicalAnalysis | Some t \<Rightarrow> t)\<rparr>)))"

section \<open>Routes (server/routes.ts)\<close>

subsection \<open>Values handed over by the request\<close>

text \<open>
  An element of the \<open>selectedModels\<close> array at run time: an integer number, a string,
  an array, or anything else (\<open>NaN\<close>, a fraction, \<open>null\<close>, a boolean, an object).
  Row ids are integers, so \<open>includes(model.id)\<close> finds only \<open>JNum (dm_id model)\<close>.
\<close>

datatype jsval = JNum int | JStr string | JArr "jsval list" | JOther

fun startsWith :: "string \<Rightarrow> string \<Rightarrow> bool" where
  "startsWith s [] = True"
| "startsWith [] (p # ps) = False"
| "startsWith (c # cs) (p # ps) = (c = p \<and> startsWith cs ps)"

fun str_includes :: "string \<Rightarrow> string \<Rightarrow> bool" where
  "str_includes [] sub = (sub = [])"
| "str_includes (c # cs) sub = (startsWith (c # cs) sub \<or> str_includes cs sub)"

subsection \<open>Model selection\<close>

definition typeMatches :: "bool \<Rightarrow> DetectionModel \<Rightarrow> bool" where
  "typeMatches isVideo model =
     (dm_type model = ''both'' \<or>
      (if isVideo then dm_type model = ''video'' else dm_type model = ''image''))"

definition modelsToUse :: "jsval list \<Rightarrow> bool \<Rightarrow> DetectionModel list \<Rightarrow> DetectionModel list" where
  "modelsToUse selectedModels isVideo availableModels =
     (if length selectedModels > 0
      then filter (\<lambda>model. JNum (dm_id model) \<in> set selectedModels \<and> typeMatches isVideo model)
             availableModels
      else filter (\<lambda>model. dm_isActive model \<and> typeMatches isVideo model) availableModels)"

subsection \<open>The simulated analysis of one model (the body of the loop)\<close>

text \<open>
  \<open>random\<close> is the double \<open>Math.random()\<close> returns in this iteration, \<open>a\<close> the first
  free object address: the three \<open>manipulationTypes\<close> literals are fresh objects in
  every iteration.
\<close>

definition simulatedScore :: "rat \<Rightarrow> DetectionModel \<Rightarrow> int" where
  "simulatedScore random model =
     (let confidenceScore = \<lfloor>fl (fl (random * (95 - 60)) + 60)\<rfloor>;
          confidenceScore = (if str_includes (dm_name model) ''FaceForensics'' then 92
                             else confidenceScore);
          confidenceScore = (if str_includes (dm_name model) ''CNN-LSTM'' then 86
                             else confidenceScore)
      in confidenceScore)"

definition simulatedAnomalies :: "DetectionModel \<Rightarrow> anomaly list" where
  "simulatedAnomalies model =
     (if str_includes (dm_name model) ''FaceForensics'' then
        [\<lparr>an_type = ''visual'',
          an_description = ''Inconsistent facial texture patterns detected around eyes and mouth regions'',
          an_severity = high\<rparr>,
         \<lparr>an_type = ''visual'',
          an_description = ''Unnatural blending boundaries identified on facial periphery'',
          an_severity = high\<rparr>,
         \<lparr>an_type = ''lighting'',
          an_description = ''Lighting inconsistencies between facial features'',
          an_severity = medium\<rparr>]
      else if str_includes (dm_name model) ''CNN-LSTM'' then
        [\<lparr>an_type = ''temporal'',
          an_description = ''Unnatural eye blink patterns detected at 00:12-00:15'',
          an_severity = high\<rparr>,
         \<lparr>an_type = ''motion'',
          an_description = ''Motion inconsistencies between face and body movements'',
          an_severity = high\<rparr>,
         \<lparr>an_type = ''sync'',
          an_description = ''Audio-visual synchronization issues at multiple timestamps'',
          an_severity = medium\<rparr>]
      else if str_includes (dm_name model) ''EfficientNet'' then
        [\<lparr>an_type = ''pattern'',
          an_description = ''Unusual pixel patterns detected in background areas'',
          an_severity = high\<rparr>,
         \<lparr>an_type = ''artifacts'',
          an_description = ''Compression artifacts inconsistent with claimed source'',
          an_severity = medium\<rparr>]
      else
        [\<lparr>an_type = ''general'',
          an_description = ''Multiple manipulation indicators detected'',
          an_severity = high\<rparr>])"

definition simulatedManipulationTypes :: "nat \<Rightarrow> manipulationType list" where
  "simulatedManipulationTypes a =
     [\<lparr>mt_ref = a, mt_type = ''Face Swap'', mt_confidence = 95\<rparr>,
      \<lparr>mt_ref = a + 1, mt_type = ''Expression Manipulation'', mt_confidence = 82\<rparr>,
      \<lparr>mt_ref = a + 2, mt_type = ''Voice Synthesis'', mt_confidence = 56\<rparr>]"

definition simulatedDetails :: "nat \<Rightarrow> bool \<Rightarrow> DetectionModel \<Rightarrow> resultDetails" where
  "simulatedDetails a isVideo model =
     \<lparr>rd_anomalies = Some (simulatedAnomalies model),
      rd_manipulationTypes = Some (simulatedManipulationTypes a),
      rd_detailsData = Some
        \<lparr>dd_heatmapData = (if str_includes (dm_name model) ''FaceForensics''
                            then Some ''heatmap_data_url_here'' else None),
         dd_faceRegions = (if str_includes (dm_name model) ''FaceForensics''
                            then Some [(''eyes'', 96), (''mouth'', 91), (''skin'', 84)] else None),
         dd_timelineData = (if str_includes (dm_name model) ''CNN-LSTM''
                             then Some [(''00:05'', 76), (''00:12'', 98), (''00:24'', 85)]
                             else None)\<rparr>,
      rd_metadata = Some \<lparr>md_duration = (if isVideo then Some ''00:42'' else None),
                          md_resolution = Some ''1920x1080''\<rparr>,
      rd_technicalAnalysis = Some
        \<lparr>ta_compressionLevel = ''High'', ta_compressionSuspicious = True,
         ta_encodingFormat = (if isVideo then ''H.264'' else ''JPEG''),
         ta_noisePattern = ''Irregular'', ta_noisePatternSuspicious = True,
         ta_metadataConsistency = ''Modified'', ta_metadataModified = True\<rparr>\<rparr>"

subsection \<open>\<open>processMedia\<close>\<close>

text \<open>
  A thrown exception is the value \<open>Inl Thrown\<close>. The part of an iteration that computes
  the score and the details is the parameter \<open>analyse\<close> of the loop: it gets the first
  free object address, \<open>isVideo\<close> and the model, and either throws or returns the score,
  the details and the next free address. \<open>simulated\<close> is that part as the source has it
  (it never throws). \<open>clock model\<close> is what \<open>new Date()\<close> reads when the result of
  \<open>model\<close> is stored. The run-time state is the next free object address together with
  the storage singleton; what was stored before a throw stays stored. The timer
  (\<open>setTimeout\<close>) only delays the run and is left out; one run is taken as a whole,
  without other requests in between.
\<close>

datatype error = Thrown

type_synonym analysis = "nat \<Rightarrow> bool \<Rightarrow> DetectionModel \<Rightarrow> error + (int \<times> resultDetails \<times> nat)"

definition simulated :: "(DetectionModel \<Rightarrow> rat) \<Rightarrow> analysis" where
  "simulated Math_random a isVideo model =
     Inr (simulatedScore (Math_random model) model, simulatedDetails a isVideo model, a + 3)"

fun analyseModels ::
  "(DetectionModel \<Rightarrow> Date) \<Rightarrow> analysis \<Rightarrow> int \<Rightarrow> bool \<Rightarrow> DetectionModel list \<Rightarrow>
   nat \<times> MemStorage \<Rightarrow> (error + unit) \<times> nat \<times> MemStorage" where
  "analyseModels clock analyse mediaId isVideo [] (a, st) = (Inr (), a, st)"
| "analyseModels clock analyse mediaId isVideo (model # models) (a, st) =
     (case analyse a isVideo model of
        Inl e \<Rightarrow> (Inl e, a, st)
      | Inr (confidenceScore, resultDetails, a') \<Rightarrow>
          analyseModels clock analyse mediaId isVideo models
            (a', snd (createAnalysisResult (clock model)
                   \<lparr>iar_mediaId = mediaId, iar_modelId = dm_id model,
                    iar_confidenceScore = confidenceScore,
                    iar_resultDetails = resultDetails\<rparr> st)))"

definition processMedia ::
  "(DetectionModel \<Rightarrow> Date) \<Rightarrow> analysis \<Rightarrow> int \<Rightarrow> jsval list \<Rightarrow>
   nat \<times> MemStorage \<Rightarrow> (error + unit) \<times> nat \<times> MemStorage" where
  "processMedia clock analyse mediaId selectedModels rt =
     (let a = fst rt;
          st = snd (updateMediaStatus mediaId ''processing'' (snd rt))
      in case getMediaUpload st mediaId of
           None \<Rightarrow> (Inr (), a, st)
         | Some mediaUpload \<Rightarrow>
             (let isVideo = startsWith (mu_filetype mediaUpload) ''video/'';
                  availableModels = getDetectionModels st
              in case analyseModels clock analyse mediaId isVideo
                        (modelsToUse selectedModels isVideo availableModels) (a, st) of
                   (Inl e, a', st') \<Rightarrow> (Inl e, a', st')
                 | (Inr u, a', st') \<Rightarrow>
                     (Inr (), a', snd (updateMediaStatus mediaId ''completed'' st'))))"

text \<open>
  The call in both routes: \<open>processMedia(id, models).catch(err => updateMediaStatus(id,
  "failed"))\<close>.
\<close>

definition dispatchAnalysis ::
  "(DetectionModel \<Rightarrow> Date) \<Rightarrow> analysis \<Rightarrow> int \<Rightarrow> jsval list \<Rightarrow>
   nat \<times> MemStorage \<Rightarrow> nat \<times> MemStorage" where
  "dispatchAnalysis clock analyse mediaId selectedModels rt =
     (case processMedia clock analyse mediaId selectedModels rt of
        (Inl err, a, st) \<Rightarrow> (a, snd (updateMediaStatus mediaId ''failed'' st))
      | (Inr u, a, st) \<Rightarrow> (a, st))"

subsection \<open>\<open>POST /api/upload\<close>: extracting the selected models\<close>

text \<open>
  \<open>req.body.selectedModels\<close> is a form field. Either it is falsy (absent or the
  empty string), or \<open>JSON.parse\<close> throws on it, or \<open>JSON.parse\<close> returns a value. \<open>parseInt\<close> is the
  built-in, \<open>None\<close> for \<open>NaN\<close>. Calling \<open>.map\<close> on a parsed value that is not an array
  throws a TypeError, which the same \<open>catch\<close> receives.
\<close>

datatype selectedModelsField = Falsy | Unparsable | Parsed jsval

definition toId :: "(string \<Rightarrow> int option) \<Rightarrow> jsval \<Rightarrow> jsval" where
  "toId parseInt v =
     (case v of
        JStr s \<Rightarrow> (case parseInt s of None \<Rightarrow> JOther | Some n \<Rightarrow> JNum n)
      | _ \<Rightarrow> v)"

definition trySelectedModels ::
  "(string \<Rightarrow> int option) \<Rightarrow> MemStorage \<Rightarrow> selectedModelsField \<Rightarrow> error + jsval list" where
  "trySelectedModels parseInt st field =
     (case field of
        Falsy \<Rightarrow> Inr (map (\<lambda>model. JNum (dm_id model)) (getDetectionModels st))
      | Unparsable \<Rightarrow> Inl Thrown
      | Parsed (JArr ids) \<Rightarrow> Inr (map (toId parseInt) ids)
      | Parsed _ \<Rightarrow> Inl Thrown)"

definition extractSelectedModels ::
  "(string \<Rightarrow> int option) \<Rightarrow> MemStorage \<Rightarrow> selectedModelsField \<Rightarrow> jsval list" where
  "extractSelectedModels parseInt st field =
     (case trySelectedModels parseInt st field of
        Inl parseError \<Rightarrow> [JNum 1, JNum 2]
      | Inr selectedModels \<Rightarrow> selectedModels)"

section \<open>Reference notions and sample stores\<close>

subsection \<open>Notions of the specification\<close>

text \<open>
  The job life cycle \<open>pending \<rightarrow> processing \<rightarrow> {completed | failed}\<close>: the steps a
  forward-only \<open>setStatus\<close> would accept.
\<close>

definition forwardTransition :: "string \<Rightarrow> string \<Rightarrow> bool" where
  "forwardTransition old new =
     ((old = ''pending'' \<and> new = ''processing'') \<or>
      (old = ''processing'' \<and> (new = ''completed'' \<or> new = ''failed'')))"

text \<open>The arithmetic mean, and "\<open>k\<close> is \<open>q\<close> rounded to the nearest integer, halves up".\<close>

definition mean :: "int list \<Rightarrow> rat" where
  "mean xs = of_int (sum_list xs) / of_nat (length xs)"

definition roundsHalfUpTo :: "rat \<Rightarrow> int \<Rightarrow> bool" where
  "roundsHalfUpTo q k = (of_int k - 1 / 2 \<le> q \<and> q < of_int k + 1 / 2)"

text \<open>
  The media type of a job (a video when the MIME type starts with \<open>video/\<close>, an image
  otherwise) and the compatibility of a model with it.
\<close>

definition jobMediaType_spec :: "MediaUpload \<Rightarrow> string" where
  "jobMediaType_spec job = (if startsWith (mu_filetype job) ''video/'' then ''video'' else ''image'')"

definition mediaCompat_spec :: "MediaUpload \<Rightarrow> DetectionModel \<Rightarrow> bool" where
  "mediaCompat_spec job model =
     (dm_type model = ''both'' \<or> dm_type model = jobMediaType_spec job)"



text \<open>
  Every key of the result map is below the id counter: true of a new storage and kept
  by every operation, it makes the next id a fresh key.
\<close>

definition resultIdsFresh :: "MemStorage \<Rightarrow> bool" where
  "resultIdsFresh st = (\<forall>k \<in> set (map fst (analysisResults st)). k < currentAnalysisId st)"

subsection \<open>Sample stores\<close>

definition exampleVideo :: InsertMediaUpload where
  "exampleVideo = \<lparr>imu_filename = ''clip.mp4'', imu_filesize = 4096,
     imu_filetype = ''video/mp4'', imu_userId = None\<rparr>"

definition jobStore :: MemStorage where
  "jobStore = snd (createMediaUpload 1000 exampleVideo newMemStorage)"

definition completedStore :: MemStorage where
  "completedStore =
     snd (updateMediaStatus 1 ''completed'' (snd (updateMediaStatus 1 ''processing'' jobStore)))"

definition fixedRandom :: "DetectionModel \<Rightarrow> rat" where
  "fixedRandom model = 1 / 2"

definition fixedClock :: "DetectionModel \<Rightarrow> Date" where
  "fixedClock model = 5000"

text \<open>The video job analysed by FaceForensics++ (1) and CNN-LSTM (3).\<close>

definition analysedStore :: MemStorage where
  "analysedStore =
     snd (dispatchAnalysis fixedClock (simulated fixedRandom) 1 [JNum 1, JNum 3] (0, jobStore))"

text \<open>An analysis that throws for the model with the given id and is the simulated one otherwise.\<close>

definition throwingFor :: "int \<Rightarrow> analysis" where
  "throwingFor modelId a isVideo model =
     (if dm_id model = modelId then Inl Thrown else simulated fixedRandom a isVideo model)"

definition failedStore :: MemStorage where
  "failedStore =
     snd (dispatchAnalysis fixedClock (throwingFor 2) 1 [JNum 1, JNum 2, JNum 3] (0, jobStore))"

text \<open>A result as a caller of the storage interface may insert it.\<close>

definition plainResult :: "int \<Rightarrow> int \<Rightarrow> int \<Rightarrow> string \<Rightarrow> InsertAnalysisResult" where
  "plainResult mediaId modelId score fmt =
     \<lparr>iar_mediaId = mediaId, iar_modelId = modelId, iar_confidenceScore = score,
      iar_resultDetails = \<lparr>rd_anomalies = None, rd_manipulationTypes = None,
        rd_detailsData = None, rd_metadata = None,
        rd_technicalAnalysis = Some (defaultTechnicalAnalysis\<lparr>ta_encodingFormat := fmt\<rparr>)\<rparr>\<rparr>"

definition duplicateStore :: MemStorage where
  "duplicateStore =
     snd (createAnalysisResult 6000 (plainResult 1 1 70 ''H.264'')
       (snd (createAnalysisResult 5000 (plainResult 1 1 70 ''H.264'') jobStore)))"


text \<open>
  A store with several jobs: job 1 analysed as above (scores 92 and 86), job 2 with
  the scores 92 and 77, job 3 without any result, job 4 with the one score 55, and a
  result whose \<open>mediaId\<close> 9 is the id of no job.
\<close>

definition exampleImage :: InsertMediaUpload where
  "exampleImage = \<lparr>imu_filename = ''photo.png'', imu_filesize = 2048,
     imu_filetype = ''image/png'', imu_userId = None\<rparr>"

definition manyJobsStore :: MemStorage where
  "manyJobsStore =
     snd (createAnalysisResult 9500 (plainResult 9 1 70 ''JPEG'')
       (snd (createAnalysisResult 9000 (plainResult 4 4 55 ''JPEG'')
         (snd (createMediaUpload 8800 exampleImage
           (snd (createMediaUpload 8500 exampleImage
             (snd (createAnalysisResult 8000 (plainResult 2 4 77 ''JPEG'')
               (snd (createAnalysisResult 8000 (plainResult 2 1 92 ''JPEG'')
                 (snd (createMediaUpload 7000 exampleImage analysedStore)))))))))))))"

text \<open>Job 1 with two results whose scores are \<open>2 ^ 53\<close> and 1.\<close>

definition largeScoreStore :: MemStorage where
  "largeScoreStore =
     snd (createAnalysisResult 6000 (plainResult 1 3 1 ''H.264'')
       (snd (createAnalysisResult 5000 (plainResult 1 1 9007199254740992 ''H.264'') jobStore)))"

text \<open>The sample job while it is processed.\<close>

definition videoJob :: MediaUpload where
  "videoJob = \<lparr>mu_id = 1, mu_filename = ''clip.mp4'', mu_filesize = 4096,
     mu_filetype = ''video/mp4'', mu_userId = None, mu_uploadedAt = 1000,
     mu_status = ''processing''\<rparr>"

text \<open>A \<open>parseInt\<close> for requests in which no string is converted.\<close>

definition parseInt_NaN :: "string \<Rightarrow> int option" where
  "parseInt_NaN s = None"

section \<open>Properties\<close>

subsection \<open>Evaluation of the sample stores\<close>

lemma newMemStorage_eval:
  "newMemStorage = \<lparr>users = [], mediaUploads = [],
    detectionModels =
      [(1, \<lparr>dm_id = 1, dm_name = ''FaceForensics++'',
              dm_description = ''Specialized in facial manipulation detection'',
              dm_type = ''both'', dm_isActive = True\<rparr>),
       (2, \<lparr>dm_id = 2, dm_name = ''DeepFake Detection Challenge'',
              dm_description = ''Facebook's DFDC model for video analysis'',
              dm_type = ''video'', dm_isActive = True\<rparr>),
       (3, \<lparr>dm_id = 3, dm_name = ''CNN-LSTM'',
              dm_description = ''Temporal inconsistency detection'',
              dm_type = ''video'', dm_isActive = True\<rparr>),
       (4, \<lparr>dm_id = 4, dm_name = ''EfficientNet-B4'',
              dm_description = ''High-accuracy image classification'',
              dm_type = ''image'', dm_isActive = True\<rparr>)],
    analysisResults = [], currentUserId = 1, currentMediaId = 1,
    currentModelId = 5, currentAnalysisId = 1\<rparr>"
  by (simp add: newMemStorage_def initDefaultModels_def emptyStorage_def defaultModels_def
      createDetectionModel_def Let_def)

lemma jobStore_eval:
  "jobStore = newMemStorage\<lparr>currentMediaId := 2, mediaUploads :=
     [(1, \<lparr>mu_id = 1, mu_filename = ''clip.mp4'', mu_filesize = 4096,
           mu_filetype = ''video/mp4'', mu_userId = None, mu_uploadedAt = 1000,
           mu_status = ''pending''\<rparr>)]\<rparr>"
  by (simp add: jobStore_def createMediaUpload_def exampleVideo_def newMemStorage_eval Let_def)

lemmas run_defs = dispatchAnalysis_def processMedia_def updateMediaStatus_def
  getMediaUpload_def Let_def getDetectionModels_def values_of_def modelsToUse_def
  typeMatches_def simulated_def createAnalysisResult_def simulatedScore_def
  simulatedDetails_def simulatedManipulationTypes_def simulatedAnomalies_def
  getAnalysisResultsByMediaId_def

lemma analysedStore_scores:
  "map ar_confidenceScore (getAnalysisResultsByMediaId analysedStore 1) = [92, 86]"
  by (simp add: analysedStore_def jobStore_eval newMemStorage_eval run_defs fixedClock_def
      fixedRandom_def)

lemma analysedStore_job:
  "getMediaUpload analysedStore 1 = Some \<lparr>mu_id = 1, mu_filename = ''clip.mp4'',
     mu_filesize = 4096, mu_filetype = ''video/mp4'', mu_userId = None,
     mu_uploadedAt = 1000, mu_status = ''completed''\<rparr>"
  by (simp add: analysedStore_def jobStore_eval newMemStorage_eval run_defs fixedClock_def
      fixedRandom_def)

lemma manyJobsStore_jobs: "map fst (mediaUploads manyJobsStore) = [1, 2, 3, 4]"
  by (simp add: manyJobsStore_def analysedStore_def exampleImage_def plainResult_def
      jobStore_eval newMemStorage_eval run_defs createMediaUpload_def fixedClock_def fixedRandom_def)

lemma manyJobsStore_results:
  "map (\<lambda>p. (ar_mediaId (snd p), ar_confidenceScore (snd p))) (analysisResults manyJobsStore) =
     [(1, 92), (1, 86), (2, 92), (2, 77), (4, 55), (9, 70)]"
  by (simp add: manyJobsStore_def analysedStore_def exampleImage_def plainResult_def
      jobStore_eval newMemStorage_eval run_defs createMediaUpload_def fixedClock_def fixedRandom_def)


lemma manyJobsStore_mediaIds:
  "ar_mediaId ` snd ` set (analysisResults manyJobsStore) = {1, 2, 4, 9}"
proof -
  have "map (\<lambda>p. ar_mediaId (snd p)) (analysisResults manyJobsStore) = [1, 1, 2, 2, 4, 9]"
    using manyJobsStore_results [THEN arg_cong, of "map fst"] by (simp add: o_def)
  then have "set (map (\<lambda>p. ar_mediaId (snd p)) (analysisResults manyJobsStore)) = {1, 2, 4, 9}"
    by (simp only:) auto
  then show ?thesis by (simp add: image_image)
qed

lemma manyJobsStore_ids: "fst ` set (mediaUploads manyJobsStore) = {1, 2, 3, 4}"
proof -
  have "set (map fst (mediaUploads manyJobsStore)) = {1, 2, 3, 4}"
    by (simp only: manyJobsStore_jobs) auto
  then show ?thesis by simp
qed

lemma manyJobsStore_scores:
  "map ar_confidenceScore
     (filter (\<lambda>result. ar_mediaId result = 1) (map snd (analysisResults manyJobsStore))) = [92, 86]"
  "map ar_confidenceScore
     (filter (\<lambda>result. ar_mediaId result = 2) (map snd (analysisResults manyJobsStore))) = [92, 77]"
  "map ar_confidenceScore
     (filter (\<lambda>result. ar_mediaId result = 4) (map snd (analysisResults manyJobsStore))) = [55]"
  by (simp_all add: manyJobsStore_def analysedStore_def exampleImage_def plainResult_def
      jobStore_eval newMemStorage_eval run_defs createMediaUpload_def fixedClock_def fixedRandom_def)

lemma largeScoreStore_scores:
  "map ar_confidenceScore (getAnalysisResultsByMediaId largeScoreStore 1) = [9007199254740992, 1]"
  by (simp add: largeScoreStore_def plainResult_def jobStore_eval newMemStorage_eval run_defs)

lemma largeScoreStore_job:
  "getMediaUpload largeScoreStore 1 = Some \<lparr>mu_id = 1, mu_filename = ''clip.mp4'',
     mu_filesize = 4096, mu_filetype = ''video/mp4'', mu_userId = None,
     mu_uploadedAt = 1000, mu_status = ''pending''\<rparr>"
  by (simp add: largeScoreStore_def jobStore_eval newMemStorage_eval run_defs)

subsection \<open>The storage operations\<close>

lemma updateMediaStatus_None:
  "getMediaUpload st i = None \<Longrightarrow> updateMediaStatus i s st = (None, st)"
  by (simp add: updateMediaStatus_def)

lemma updateMediaStatus_Some:
  "getMediaUpload st i = Some m \<Longrightarrow>
   updateMediaStatus i s st =
     (Some (m\<lparr>mu_status := s\<rparr>),
      st\<lparr>mediaUploads := AList.update i (m\<lparr>mu_status := s\<rparr>) (mediaUploads st)\<rparr>)"
  by (simp add: updateMediaStatus_def Let_def)

lemma getMediaUpload_update:
  "getMediaUpload (st\<lparr>mediaUploads := AList.update i v (mediaUploads st)\<rparr>) j =
     (if j = i then Some v else getMediaUpload st j)"
  by (simp add: getMediaUpload_def update_conv')

lemma keys_update_present:
  "map_of al k = Some v \<Longrightarrow> map fst (AList.update k w al) = map fst al"
  by (induction al) auto

lemma update_fresh:
  "k \<notin> fst ` set al \<Longrightarrow> AList.update k v al = al @ [(k, v)]"
  by (induction al) auto

lemma createAnalysisResult_eq:
  "createAnalysisResult now result st =
     (\<lparr>ar_id = currentAnalysisId st, ar_mediaId = iar_mediaId result,
        ar_modelId = iar_modelId result, ar_confidenceScore = iar_confidenceScore result,
        ar_resultDetails = iar_resultDetails result, ar_analyzedAt = now\<rparr>,
      st\<lparr>currentAnalysisId := currentAnalysisId st + 1,
         analysisResults := AList.update (currentAnalysisId st)
           \<lparr>ar_id = currentAnalysisId st, ar_mediaId = iar_mediaId result,
            ar_modelId = iar_modelId result, ar_confidenceScore = iar_confidenceScore result,
            ar_resultDetails = iar_resultDetails result, ar_analyzedAt = now\<rparr>
           (analysisResults st)\<rparr>)"
  by (simp add: createAnalysisResult_def Let_def)

lemma createAnalysisResult_appends:
  assumes "resultIdsFresh st"
  shows "analysisResults (snd (createAnalysisResult now result st)) =
           analysisResults st @ [(currentAnalysisId st, fst (createAnalysisResult now result st))]"
proof -
  have "currentAnalysisId st \<notin> fst ` set (analysisResults st)"
    using assms by (auto simp: resultIdsFresh_def)
  then show ?thesis
    by (simp add: createAnalysisResult_eq update_fresh)
qed

lemma createAnalysisResult_fresh:
  assumes "resultIdsFresh st"
  shows "resultIdsFresh (snd (createAnalysisResult now result st))"
  using assms by (auto simp: createAnalysisResult_eq resultIdsFresh_def dom_update)

lemma updateMediaStatus_analysisResults:
  "analysisResults (snd (updateMediaStatus i s st)) = analysisResults st"
  by (simp add: updateMediaStatus_def Let_def split: option.splits)

lemma updateMediaStatus_counter:
  "currentAnalysisId (snd (updateMediaStatus i s st)) = currentAnalysisId st"
  by (simp add: updateMediaStatus_def Let_def split: option.splits)

lemma jobStore_fresh: "resultIdsFresh jobStore"
  by (simp add: resultIdsFresh_def jobStore_eval newMemStorage_eval)

subsection \<open>C10: what \<open>updateMediaStatus\<close> changes\<close>

text \<open>
  C10. For an id that is not in the store, \<open>updateMediaStatus\<close> returns \<open>undefined\<close>
  and the store is the same. For the id of a job \<open>m\<close> it returns and stores a job with
  the new status whose id, filename, filesize, filetype, userId and uploadedAt are
  those of \<open>m\<close>; every other job reads as before, the order of the job map is the
  same, and no other field of the storage (users, models, results, counters) changes.
\<close>

theorem updateMediaStatus_frame:
  "(getMediaUpload st i = None \<longrightarrow> updateMediaStatus i s st = (None, st)) \<and>
   (\<forall>m. getMediaUpload st i = Some m \<longrightarrow>
      (\<exists>m' st'. updateMediaStatus i s st = (Some m', st') \<and>
         getMediaUpload st' i = Some m' \<and> mu_status m' = s \<and>
         mu_id m' = mu_id m \<and> mu_filename m' = mu_filename m \<and>
         mu_filesize m' = mu_filesize m \<and> mu_filetype m' = mu_filetype m \<and>
         mu_userId m' = mu_userId m \<and> mu_uploadedAt m' = mu_uploadedAt m \<and>
         (\<forall>j. j \<noteq> i \<longrightarrow> getMediaUpload st' j = getMediaUpload st j) \<and>
         map fst (mediaUploads st') = map fst (mediaUploads st) \<and>
         st' = st\<lparr>mediaUploads := mediaUploads st'\<rparr>))"
proof (intro conjI allI impI)
  assume "getMediaUpload st i = None"
  then show "updateMediaStatus i s st = (None, st)" by (rule updateMediaStatus_None)
next
  fix m assume m: "getMediaUpload st i = Some m"
  let ?m' = "m\<lparr>mu_status := s\<rparr>"
  let ?st' = "st\<lparr>mediaUploads := AList.update i ?m' (mediaUploads st)\<rparr>"
  have 1: "updateMediaStatus i s st = (Some ?m', ?st')"
    using m by (rule updateMediaStatus_Some)
  have 2: "getMediaUpload ?st' i = Some ?m'"
    by (simp add: getMediaUpload_update)
  have 3: "\<forall>j. j \<noteq> i \<longrightarrow> getMediaUpload ?st' j = getMediaUpload st j"
    by (simp add: getMediaUpload_update)
  have 4: "map fst (mediaUploads ?st') = map fst (mediaUploads st)"
    using m by (simp add: getMediaUpload_def keys_update_present)
  have 5: "?st' = st\<lparr>mediaUploads := mediaUploads ?st'\<rparr>" by simp
  show "\<exists>m' st'. updateMediaStatus i s st = (Some m', st') \<and>
         getMediaUpload st' i = Some m' \<and> mu_status m' = s \<and>
         mu_id m' = mu_id m \<and> mu_filename m' = mu_filename m \<and>
         mu_filesize m' = mu_filesize m \<and> mu_filetype m' = mu_filetype m \<and>
         mu_userId m' = mu_userId m \<and> mu_uploadedAt m' = mu_uploadedAt m \<and>
         (\<forall>j. j \<noteq> i \<longrightarrow> getMediaUpload st' j = getMediaUpload st j) \<and>
         map fst (mediaUploads st') = map fst (mediaUploads st) \<and>
         st' = st\<lparr>mediaUploads := mediaUploads st'\<rparr>"
    apply (rule exI[of _ ?m'], rule exI[of _ ?st'])
    using 1 2 3 4 5 by simp
qed

text \<open>
  C10, at the sample store: id 7 is unknown and nothing changes; job 1 goes from
  \<open>pending\<close> to \<open>processing\<close> and keeps its filename.
\<close>

theorem updateMediaStatus_frame_witness:
  "getMediaUpload jobStore 7 = None \<and>
   updateMediaStatus 7 ''processing'' jobStore = (None, jobStore) \<and>
   map_option mu_status (getMediaUpload jobStore 1) = Some ''pending'' \<and>
   map_option mu_status (fst (updateMediaStatus 1 ''processing'' jobStore)) = Some ''processing'' \<and>
   map_option mu_filename (fst (updateMediaStatus 1 ''processing'' jobStore)) = Some ''clip.mp4''"
proof -
  have a: "getMediaUpload jobStore 7 = None"
    by (simp add: jobStore_eval newMemStorage_eval getMediaUpload_def)
  have b: "getMediaUpload jobStore 1 = Some \<lparr>mu_id = 1, mu_filename = ''clip.mp4'',
           mu_filesize = 4096, mu_filetype = ''video/mp4'', mu_userId = None,
           mu_uploadedAt = 1000, mu_status = ''pending''\<rparr>"
    by (simp add: jobStore_eval newMemStorage_eval getMediaUpload_def)
  from a updateMediaStatus_frame [of jobStore 7 "''processing''"]
  have c: "updateMediaStatus 7 ''processing'' jobStore = (None, jobStore)" by blast
  from b updateMediaStatus_frame [of jobStore 1 "''processing''"]
  obtain m' st' where d: "updateMediaStatus 1 ''processing'' jobStore = (Some m', st')"
    "mu_status m' = ''processing''" "mu_filename m' = ''clip.mp4''"
    by auto
  show ?thesis using a b c d by simp
qed

subsection \<open>C1: status transitions\<close>

text \<open>
  C1, as stated, fails: \<open>updateMediaStatus\<close> has no check of the transition. Job 1 of
  \<open>completedStore\<close> is \<open>completed\<close>; \<open>completed \<rightarrow> pending\<close> is not a forward step; the
  call stores \<open>pending\<close>.
\<close>

theorem setStatus_backward_counterexample:
  "map_option mu_status (getMediaUpload completedStore 1) = Some ''completed'' \<and>
   \<not> forwardTransition ''completed'' ''pending'' \<and>
   map_option mu_status
     (getMediaUpload (snd (updateMediaStatus 1 ''pending'' completedStore)) 1) = Some ''pending''"
  by (simp add: completedStore_def jobStore_eval newMemStorage_eval updateMediaStatus_def
      getMediaUpload_def forwardTransition_def Let_def)

text \<open>
  C1, amended. \<open>updateMediaStatus\<close> applies every transition: for a job that exists,
  the stored job afterwards is the old one with the status that was passed, whatever
  the old status was.
\<close>

theorem updateMediaStatus_overwrites:
  "getMediaUpload st i = Some m \<Longrightarrow>
   getMediaUpload (snd (updateMediaStatus i s st)) i = Some (m\<lparr>mu_status := s\<rparr>)"
  by (simp add: updateMediaStatus_Some getMediaUpload_update)

text \<open>C1, amended, at the completed job: a later call moves it to \<open>processing\<close>.\<close>

theorem updateMediaStatus_overwrites_witness:
  "map_option mu_status (getMediaUpload completedStore 1) = Some ''completed'' \<and>
   map_option mu_status
     (getMediaUpload (snd (updateMediaStatus 1 ''processing'' completedStore)) 1) =
     Some ''processing''"
proof -
  have b: "getMediaUpload completedStore 1 = Some \<lparr>mu_id = 1, mu_filename = ''clip.mp4'',
           mu_filesize = 4096, mu_filetype = ''video/mp4'', mu_userId = None,
           mu_uploadedAt = 1000, mu_status = ''completed''\<rparr>"
    by (simp add: completedStore_def jobStore_eval newMemStorage_eval updateMediaStatus_def
      getMediaUpload_def Let_def)
  show ?thesis using b updateMediaStatus_overwrites [OF b, of "''processing''"] by simp
qed

subsection \<open>C8: inserting results\<close>

text \<open>
  C8, as stated, fails: \<open>createAnalysisResult\<close> never rejects. Two insertions for job 1
  and model 1 leave two results for that pair, with ids 1 and 2.
\<close>

theorem addResult_duplicate_counterexample:
  "map (\<lambda>r. (ar_id r, ar_mediaId r, ar_modelId r)) (getAnalysisResultsByMediaId duplicateStore 1) =
     [(1, 1, 1), (2, 1, 1)]"
  by (simp add: duplicateStore_def plainResult_def jobStore_eval newMemStorage_eval run_defs)

text \<open>
  C8, amended. In a storage whose result ids are below the counter,
  \<open>createAnalysisResult\<close> always stores: the result gets the next id and the fields of
  the request, it is appended to the result map and to the results of its job, also
  when that job already has a result of the same model. Every result stored before
  reads as before, the ids stay below the counter, and no other operation that writes
  the storage touches the result map.
\<close>

theorem createAnalysisResult_always_stores:
  assumes "resultIdsFresh st"
    and "createAnalysisResult now result st = (r, st')"
  shows "ar_id r = currentAnalysisId st \<and> ar_mediaId r = iar_mediaId result \<and>
         ar_modelId r = iar_modelId result \<and>
         ar_confidenceScore r = iar_confidenceScore result \<and>
         ar_resultDetails r = iar_resultDetails result \<and> ar_analyzedAt r = now \<and>
         analysisResults st' = analysisResults st @ [(ar_id r, r)] \<and>
         getAnalysisResultsByMediaId st' (iar_mediaId result) =
           getAnalysisResultsByMediaId st (iar_mediaId result) @ [r] \<and>
         (\<forall>k v. getAnalysisById st k = Some v \<longrightarrow> getAnalysisById st' k = Some v) \<and>
         resultIdsFresh st' \<and>
         analysisResults (snd (updateMediaStatus i s st')) = analysisResults st' \<and>
         analysisResults (snd (createMediaUpload t upload st')) = analysisResults st' \<and>
         analysisResults (snd (createDetectionModel model st')) = analysisResults st'"
proof -
  have r: "r = fst (createAnalysisResult now result st)"
    and st': "st' = snd (createAnalysisResult now result st)"
    using assms(2) by simp_all
  have fields: "ar_id r = currentAnalysisId st \<and> ar_mediaId r = iar_mediaId result \<and>
         ar_modelId r = iar_modelId result \<and>
         ar_confidenceScore r = iar_confidenceScore result \<and>
         ar_resultDetails r = iar_resultDetails result \<and> ar_analyzedAt r = now"
    by (simp add: r createAnalysisResult_eq)
  have app: "analysisResults st' = analysisResults st @ [(ar_id r, r)]"
    using createAnalysisResult_appends[OF assms(1), of now result] fields by (simp add: r st')
  have byMedia: "getAnalysisResultsByMediaId st' (iar_mediaId result) =
           getAnalysisResultsByMediaId st (iar_mediaId result) @ [r]"
    using fields by (simp add: getAnalysisResultsByMediaId_def values_of_def app)
  have old: "\<forall>k v. getAnalysisById st k = Some v \<longrightarrow> getAnalysisById st' k = Some v"
    by (simp add: getAnalysisById_def app map_add_Some_iff)
  have inv: "resultIdsFresh st'"
    using createAnalysisResult_fresh[OF assms(1)] by (simp add: st')
  have others: "analysisResults (snd (updateMediaStatus i s st')) = analysisResults st' \<and>
         analysisResults (snd (createMediaUpload t upload st')) = analysisResults st' \<and>
         analysisResults (snd (createDetectionModel model st')) = analysisResults st'"
    by (simp add: updateMediaStatus_analysisResults createMediaUpload_def
        createDetectionModel_def Let_def)
  show ?thesis using fields app byMedia old inv others by blast
qed

text \<open>
  C8, amended, at the sample store: the same request inserted twice gives two results
  of model 1 for job 1.
\<close>

theorem createAnalysisResult_always_stores_witness:
  "resultIdsFresh (snd (createAnalysisResult 5000 (plainResult 1 1 70 ''H.264'') jobStore)) \<and>
   map ar_modelId (getAnalysisResultsByMediaId duplicateStore 1) = [1, 1]"
proof -
  let ?p = "plainResult 1 1 70 ''H.264''"
  let ?c1 = "createAnalysisResult 5000 ?p jobStore"
  let ?c2 = "createAnalysisResult 6000 ?p (snd ?c1)"
  have m: "iar_mediaId ?p = 1" "iar_modelId ?p = 1" by (simp_all add: plainResult_def)
  have e: "getAnalysisResultsByMediaId jobStore 1 = []"
    by (simp add: jobStore_eval newMemStorage_eval getAnalysisResultsByMediaId_def values_of_def)
  note s1 = createAnalysisResult_always_stores [OF jobStore_fresh, of 5000 ?p "fst ?c1" "snd ?c1"]
  have f1: "resultIdsFresh (snd ?c1)" using s1 by simp
  have g1: "getAnalysisResultsByMediaId (snd ?c1) 1 = [fst ?c1]" "ar_modelId (fst ?c1) = 1"
    using s1 m e by simp_all
  note s2 = createAnalysisResult_always_stores [OF f1, of 6000 ?p "fst ?c2" "snd ?c2"]
  have g2: "getAnalysisResultsByMediaId (snd ?c2) 1 = [fst ?c1, fst ?c2]" "ar_modelId (fst ?c2) = 1"
    using s2 m g1 by simp_all
  show ?thesis using f1 g1 g2 by (simp add: duplicateStore_def)
qed

subsection \<open>C9: a malformed \<open>selectedModels\<close> field\<close>

text \<open>
  C9, as stated, fails: when \<open>JSON.parse\<close> throws, the \<open>catch\<close> block hands the ids 1
  and 2 to \<open>processMedia\<close>, not an empty selection.
\<close>

theorem malformed_selection_counterexample:
  "extractSelectedModels parseInt_NaN newMemStorage Unparsable = [JNum 1, JNum 2] \<and>
   extractSelectedModels parseInt_NaN newMemStorage Unparsable \<noteq> []"
  by (simp add: extractSelectedModels_def trySelectedModels_def)

text \<open>
  C9, amended. The extraction always returns a list. When the field does not parse, or
  parses to a number, a string or another value that is not an array, the list is the
  fixed \<open>[1, 2]\<close>; an array is converted element by element; a missing field gives the
  ids of all models of the registry.
\<close>

theorem malformed_selection_falls_back:
  "extractSelectedModels parseInt st Unparsable = [JNum 1, JNum 2] \<and>
   extractSelectedModels parseInt st (Parsed (JNum n)) = [JNum 1, JNum 2] \<and>
   extractSelectedModels parseInt st (Parsed (JStr s)) = [JNum 1, JNum 2] \<and>
   extractSelectedModels parseInt st (Parsed JOther) = [JNum 1, JNum 2] \<and>
   extractSelectedModels parseInt st (Parsed (JArr ids)) = map (toId parseInt) ids \<and>
   extractSelectedModels parseInt st Falsy =
     map (\<lambda>model. JNum (dm_id model)) (getDetectionModels st)"
  by (simp add: extractSelectedModels_def trySelectedModels_def)

subsection \<open>C6: when the report is missing\<close>

text \<open>
  C6. \<open>getCompleteAnalysis\<close> returns \<open>undefined\<close> exactly when the id is the key of no
  job of the store or the \<open>mediaId\<close> of no stored result; in every other case, that is
  when the job exists and a stored result carries its id, it returns a report.
\<close>

theorem getCompleteAnalysis_NotFound_iff:
  "getCompleteAnalysis st mediaId = None \<longleftrightarrow>
     (mediaId \<notin> fst ` set (mediaUploads st) \<or>
      mediaId \<notin> ar_mediaId ` snd ` set (analysisResults st))"
proof -
  have a: "getMediaUpload st mediaId = None \<longleftrightarrow> mediaId \<notin> fst ` set (mediaUploads st)"
    by (simp add: getMediaUpload_def map_of_eq_None_iff)
  have b: "getAnalysisResultsByMediaId st mediaId = [] \<longleftrightarrow>
             mediaId \<notin> ar_mediaId ` snd ` set (analysisResults st)"
    by (auto simp: getAnalysisResultsByMediaId_def values_of_def filter_empty_conv)
  have "getCompleteAnalysis st mediaId = None \<longleftrightarrow>
     (getMediaUpload st mediaId = None \<or> getAnalysisResultsByMediaId st mediaId = [])"
    by (simp add: getCompleteAnalysis_def Let_def split: option.splits list.splits)
  then show ?thesis by (simp only: a b)
qed

text \<open>
  C6, at the store with several jobs: job 3 exists and has no result of its own (the
  store holds results of other jobs), 9 is the \<open>mediaId\<close> of a result and the id of no
  job, 7 is neither: no report. Jobs 1 and 2 have results: a report.
\<close>

theorem getCompleteAnalysis_NotFound_iff_witness:
  "getCompleteAnalysis manyJobsStore 3 = None \<and> getCompleteAnalysis manyJobsStore 9 = None \<and>
   getCompleteAnalysis manyJobsStore 7 = None \<and> getCompleteAnalysis manyJobsStore 1 \<noteq> None \<and>
   getCompleteAnalysis manyJobsStore 2 \<noteq> None"
  using getCompleteAnalysis_NotFound_iff [of manyJobsStore 3]
    getCompleteAnalysis_NotFound_iff [of manyJobsStore 9]
    getCompleteAnalysis_NotFound_iff [of manyJobsStore 7]
    getCompleteAnalysis_NotFound_iff [of manyJobsStore 1]
    getCompleteAnalysis_NotFound_iff [of manyJobsStore 2]
  by (simp add: manyJobsStore_ids manyJobsStore_mediaIds)

subsection \<open>C7: the models that are used\<close>

lemma typeMatches_mediaCompat:
  "typeMatches (startsWith (mu_filetype job) ''video/'') model = mediaCompat_spec job model"
  by (simp add: typeMatches_def mediaCompat_spec_def jobMediaType_spec_def)

lemma typeMatches_isActive_update:
  "typeMatches isVideo (model\<lparr>dm_isActive := b\<rparr>) = typeMatches isVideo model"
  by (simp add: typeMatches_def)

text \<open>
  C7. With a non-empty list of selected ids, the models used for a job are the models
  of the registry, in its order, whose id is in the list and whose type is compatible
  with the media type of the job; \<open>isActive\<close> plays no part: setting the flags of the
  registry in any way gives the same models (with those flags). With an empty list
  they are the active models of a compatible type.
\<close>

theorem modelsToUse_selection:
  "(selectedModels \<noteq> [] \<longrightarrow>
      modelsToUse selectedModels (startsWith (mu_filetype job) ''video/'') registry =
        filter (\<lambda>model. JNum (dm_id model) \<in> set selectedModels \<and> mediaCompat_spec job model)
          registry \<and>
      modelsToUse selectedModels isVideo (map (\<lambda>model. model\<lparr>dm_isActive := flag model\<rparr>) registry) =
        map (\<lambda>model. model\<lparr>dm_isActive := flag model\<rparr>)
          (modelsToUse selectedModels isVideo registry)) \<and>
   modelsToUse [] (startsWith (mu_filetype job) ''video/'') registry =
     filter (\<lambda>model. dm_isActive model \<and> mediaCompat_spec job model) registry"
  by (simp add: modelsToUse_def typeMatches_mediaCompat filter_map o_def
      typeMatches_isActive_update)

text \<open>
  C7, at the default registry and a video job: the selection \<open>[1, 4]\<close> gives model 1
  (model 4 is for images), also when every model is deactivated; no selection gives the
  active models 1, 2 and 3.
\<close>

theorem modelsToUse_selection_witness:
  "[JNum 1, JNum 4] \<noteq> [] \<and>
   map dm_id (modelsToUse [JNum 1, JNum 4] (startsWith (mu_filetype videoJob) ''video/'')
     (getDetectionModels newMemStorage)) = [1] \<and>
   map dm_id (modelsToUse [JNum 1, JNum 4] True
     (map (\<lambda>model. model\<lparr>dm_isActive := False\<rparr>) (getDetectionModels newMemStorage))) = [1] \<and>
   map dm_id (modelsToUse [] (startsWith (mu_filetype videoJob) ''video/'')
     (getDetectionModels newMemStorage)) = [1, 2, 3]"
proof -
  have ne: "[JNum 1, JNum 4] \<noteq> []" by simp
  note t = modelsToUse_selection [of "[JNum 1, JNum 4]" videoJob "getDetectionModels newMemStorage"
    True "\<lambda>model. False"]
  have v: "startsWith (mu_filetype videoJob) ''video/''" by (simp add: videoJob_def)
  have c: "filter (\<lambda>model. JNum (dm_id model) \<in> set [JNum 1, JNum 4] \<and> mediaCompat_spec videoJob model)
          (getDetectionModels newMemStorage) = [\<lparr>dm_id = 1, dm_name = ''FaceForensics++'',
              dm_description = ''Specialized in facial manipulation detection'',
              dm_type = ''both'', dm_isActive = True\<rparr>]"
    by (simp add: newMemStorage_eval getDetectionModels_def values_of_def mediaCompat_spec_def
        jobMediaType_spec_def videoJob_def)
  have d: "map dm_id (filter (\<lambda>model. dm_isActive model \<and> mediaCompat_spec videoJob model)
      (getDetectionModels newMemStorage)) = [1, 2, 3]"
    by (simp add: newMemStorage_eval getDetectionModels_def values_of_def mediaCompat_spec_def
        jobMediaType_spec_def videoJob_def)
  show ?thesis using ne t c d v by simp
qed

subsection \<open>Rounding to a double\<close>

lemma floor_log2_bounds: "0 < n \<Longrightarrow> 2 ^ floor_log2 n \<le> n \<and> n < 2 ^ Suc (floor_log2 n)"
proof (induction n rule: floor_log2.induct)
  case (1 n)
  show ?case
  proof (cases "n < 2")
    case True
    with 1(2) have "n = 1" by simp
    then show ?thesis by (simp add: floor_log2.simps)
  next
    case False
    then have pos: "0 < n div 2" by simp
    from 1(1) [OF False pos]
    have ih: "2 ^ floor_log2 (n div 2) \<le> n div 2" "n div 2 < 2 ^ Suc (floor_log2 (n div 2))"
      by simp_all
    have eq: "floor_log2 n = Suc (floor_log2 (n div 2))"
      using False by (subst floor_log2.simps) simp
    from ih(1) have "2 * 2 ^ floor_log2 (n div 2) \<le> n" by simp
    moreover from ih(2) have "n < 2 * 2 ^ Suc (floor_log2 (n div 2))" by simp
    ultimately show ?thesis by (simp add: eq)
  qed
qed

lemma exponent_lower:
  assumes "0 < x"
  shows "2 powi (exponent x) \<le> x"
proof (cases "1 \<le> x")
  case True
  then have "0 < nat \<lfloor>x\<rfloor>" by simp
  from floor_log2_bounds [OF this] have "2 ^ floor_log2 (nat \<lfloor>x\<rfloor>) \<le> nat \<lfloor>x\<rfloor>" by simp
  then have "(2::rat) ^ floor_log2 (nat \<lfloor>x\<rfloor>) \<le> of_nat (nat \<lfloor>x\<rfloor>)"
    by (metis of_nat_le_iff of_nat_numeral of_nat_power)
  also have "\<dots> \<le> x" using True by simp
  finally show ?thesis using True by (simp add: exponent_def)
next
  case False
  with assms have inv: "1 < 1 / x" by simp
  then have c2: "2 \<le> \<lceil>1 / x\<rceil>" by linarith
  let ?m = "nat \<lceil>1 / x\<rceil>"
  from c2 have "2 \<le> ?m" by linarith
  then have m: "\<not> ?m \<le> 1" "0 < ?m - 1" by linarith+
  from floor_log2_bounds [OF m(2)] have "?m - 1 < 2 ^ Suc (floor_log2 (?m - 1))" by simp
  then have "?m \<le> 2 ^ Suc (floor_log2 (?m - 1))" by simp
  then have "(of_nat ?m :: rat) \<le> 2 ^ Suc (floor_log2 (?m - 1))"
    by (metis of_nat_le_iff of_nat_numeral of_nat_power)
  moreover have "1 / x \<le> of_nat ?m"
  proof -
    from c2 have nn: "0 \<le> \<lceil>1 / x\<rceil>" by linarith
    have "1 / x \<le> of_int \<lceil>1 / x\<rceil>" by (rule le_of_int_ceiling)
    also have "\<dots> = of_nat ?m" by (simp only: of_nat_nat [OF nn])
    finally show ?thesis .
  qed
  ultimately have "1 / x \<le> 2 ^ Suc (floor_log2 (?m - 1))" by simp
  then have "1 / 2 ^ Suc (floor_log2 (?m - 1)) \<le> x"
    using assms by (simp add: field_simps)
  then have "inverse (2 ^ Suc (floor_log2 (?m - 1))) \<le> x"
    by (simp add: inverse_eq_divide)
  moreover have "exponent x = - int (Suc (floor_log2 (?m - 1)))"
    using False m by (simp add: exponent_def)
  then have "(2::rat) powi exponent x = inverse (2 ^ Suc (floor_log2 (?m - 1)))"
    by (simp only: power_int_minus power_int_of_nat)
  ultimately show ?thesis by simp
qed

lemma roundTiesToEven_error: "\<bar>of_int (roundTiesToEven y) - y\<bar> \<le> 1 / 2"
proof -
  define f where "f = \<lfloor>y\<rfloor>"
  define d where "d = y - of_int f"
  have d: "0 \<le> d" "d < 1" unfolding d_def f_def by linarith+
  have r: "roundTiesToEven y =
             (if d < 1 / 2 then f else if 1 / 2 < d then f + 1 else if even f then f else f + 1)"
    by (simp add: roundTiesToEven_def Let_def f_def d_def)
  consider "d < 1 / 2" | "1 / 2 < d" | "d = 1 / 2" by linarith
  then show ?thesis
  proof cases
    case 1
    then have "roundTiesToEven y = f" by (simp add: r)
    then show ?thesis using d 1 unfolding d_def by simp
  next
    case 2
    then have "roundTiesToEven y = f + 1" by (simp add: r)
    then show ?thesis using d 2 unfolding d_def by simp
  next
    case 3
    then have "roundTiesToEven y = f \<or> roundTiesToEven y = f + 1" by (simp add: r)
    then show ?thesis using 3 unfolding d_def by auto
  qed
qed

lemma roundTiesToEven_of_int: "roundTiesToEven (of_int k) = k"
  by (simp add: roundTiesToEven_def)

lemma fl_error:
  assumes "x \<noteq> 0"
  shows "\<bar>fl x - x\<bar> \<le> 2 powi (exponent \<bar>x\<bar> - 53)"
proof -
  let ?u = "(2::rat) powi (exponent \<bar>x\<bar> - 52)"
  have u: "0 < ?u" by simp
  have "fl x - x = (of_int (roundTiesToEven (x / ?u)) - x / ?u) * ?u"
    using assms u by (simp add: fl_def Let_def field_simps)
  then have "\<bar>fl x - x\<bar> = \<bar>of_int (roundTiesToEven (x / ?u)) - x / ?u\<bar> * ?u"
    using u by (simp add: abs_mult)
  also have "\<dots> \<le> 1 / 2 * ?u"
    using roundTiesToEven_error [of "x / ?u"] u by (intro mult_right_mono) simp_all
  also have "1 / 2 * ?u = 2 powi (exponent \<bar>x\<bar> - 53)"
    by (simp add: power_int_diff)
  finally show ?thesis .
qed

lemma fl_exact:
  assumes "x \<noteq> 0" and "x / 2 powi (exponent \<bar>x\<bar> - 52) = of_int k"
  shows "fl x = x"
proof -
  let ?u = "(2::rat) powi (exponent \<bar>x\<bar> - 52)"
  have u: "0 < ?u" by simp
  have "fl x = of_int (roundTiesToEven (x / ?u)) * ?u"
    using assms(1) by (simp add: fl_def Let_def)
  also have "\<dots> = of_int k * ?u" by (simp add: assms(2) roundTiesToEven_of_int)
  also have "\<dots> = x" using assms(2) u by (simp add: field_simps)
  finally show ?thesis .
qed

lemma exponent_less:
  assumes "0 < x" and "x < 2 ^ n"
  shows "exponent x < int n"
proof (rule ccontr)
  assume "\<not> exponent x < int n"
  then have "int n \<le> exponent x" by simp
  then have "(2::rat) powi int n \<le> 2 powi exponent x"
    by (intro power_int_increasing) simp_all
  also have "\<dots> \<le> x" using assms(1) by (rule exponent_lower)
  finally show False using assms(2) by simp
qed

lemma fl_dyadic:
  assumes "0 < m" and "m < 2 ^ 53" 
  shows "fl (of_int m / 2) = of_int m / 2" "fl (of_int m) = of_int m"
proof -
  let ?x = "of_int m / 2 :: rat"
  have x: "0 < ?x" "?x < 2 ^ 52" using assms by simp_all
  then have e: "exponent ?x < 52" using exponent_less [of ?x 52] by simp
  define d where "d = nat (51 - exponent ?x)"
  have "51 - exponent ?x = int d" using e by (simp add: d_def)
  then have "exponent ?x - 52 = - int (Suc d)" by simp
  then have "(2::rat) powi (exponent ?x - 52) = inverse (2 ^ Suc d)"
    by (simp only: power_int_minus power_int_of_nat)
  moreover have "\<bar>?x\<bar> = ?x" using x(1) by simp
  ultimately have "?x / 2 powi (exponent \<bar>?x\<bar> - 52) = ?x * 2 ^ Suc d"
    by (simp add: field_simps)
  also have "\<dots> = of_int (m * 2 ^ d)" by simp
  finally have k: "?x / 2 powi (exponent \<bar>?x\<bar> - 52) = of_int (m * 2 ^ d)" .
  have nz: "?x \<noteq> 0" using x(1) by simp
  show "fl ?x = ?x" by (rule fl_exact [OF nz k])
next
  let ?x = "of_int m :: rat"
  have x: "0 < ?x" "?x < 2 ^ 53" using assms by simp_all
  then have e: "exponent ?x < 53" using exponent_less [of ?x 53] by simp
  define d where "d = nat (52 - exponent ?x)"
  have "52 - exponent ?x = int d" using e by (simp add: d_def)
  then have "exponent ?x - 52 = - int d" by simp
  then have "(2::rat) powi (exponent ?x - 52) = inverse (2 ^ d)"
    by (simp only: power_int_minus power_int_of_nat)
  moreover have "\<bar>?x\<bar> = ?x" using x(1) by simp
  ultimately have "?x / 2 powi (exponent \<bar>?x\<bar> - 52) = ?x * 2 ^ d"
    by (simp add: field_simps)
  also have "\<dots> = of_int (m * 2 ^ d)" by simp
  finally have k: "?x / 2 powi (exponent \<bar>?x\<bar> - 52) = of_int (m * 2 ^ d)" .
  have nz: "?x \<noteq> 0" using x(1) by simp
  show "fl ?x = ?x" by (rule fl_exact [OF nz k])
qed



lemma fl_of_int_nonneg:
  assumes "0 \<le> m" and "m < 2 ^ 53"
  shows "fl (of_int m) = of_int m"
proof (cases "m = 0")
  case True
  then show ?thesis by (simp add: fl_def)
next
  case False
  with assms(1) have "0 < m" by simp
  then show ?thesis using assms(2) by (rule fl_dyadic(2))
qed

lemma foldl_fl_sum:
  assumes "\<forall>r \<in> set xs. 0 \<le> f r \<and> f r \<le> 100"
    and "0 \<le> A" and "A + 100 * int (length xs) < 2 ^ 53"
  shows "foldl (\<lambda>sum r. fl (sum + of_int (f r))) (of_int A) xs =
           of_int (A + sum_list (map f xs))"
  using assms
proof (induction xs arbitrary: A)
  case Nil
  then show ?case by simp
next
  case (Cons x xs)
  from Cons.prems(1) have fx: "0 \<le> f x" "f x \<le> 100" by simp_all
  have "fl (of_int A + of_int (f x)) = fl (of_int (A + f x))" by simp
  also have "\<dots> = of_int (A + f x)"
    using fx Cons.prems(2,3) by (intro fl_of_int_nonneg) simp_all
  finally have step: "fl (of_int A + of_int (f x)) = of_int (A + f x)" .
  have "foldl (\<lambda>sum r. fl (sum + of_int (f r))) (of_int (A + f x)) xs =
          of_int (A + f x + sum_list (map f xs))"
    using Cons.prems fx by (intro Cons.IH) simp_all
  then show ?case by (simp add: step add.assoc)
qed

lemma sum_list_bounds:
  assumes "\<forall>r \<in> set xs. 0 \<le> f r \<and> f r \<le> (100::int)"
  shows "0 \<le> sum_list (map f xs) \<and> sum_list (map f xs) \<le> 100 * int (length xs)"
  using assms by (induction xs) auto

lemma Math_round_fl_quotient:
  assumes "0 \<le> S" and "S \<le> 100 * int n" and "0 < n" and "n < 2 ^ 46"
  shows "Math_round (fl (of_int S / of_nat n)) = Math_round (of_int S / of_nat n)"
proof (cases "S = 0")
  case True
  then show ?thesis by (simp add: fl_def)
next
  case False
  with assms(1) have S: "0 < S" by simp
  let ?x = "of_int S / of_nat n :: rat"
  define k where "k = Math_round ?x"
  have n: "(0::rat) < of_nat n" using assms(3) by simp
  have x0: "0 < ?x" using S n by simp
  have x100: "?x \<le> 100"
  proof -
    have "(of_int S :: rat) \<le> of_int (100 * int n)" using assms(2) by (simp only: of_int_le_iff)
    then show ?thesis using n by (simp add: field_simps)
  qed
  have e: "exponent \<bar>?x\<bar> < 7"
  proof -
    have "?x < 2 ^ 7" using x100 by simp
    from exponent_less [OF x0 this] have "exponent ?x < 7" by simp
    moreover have "\<bar>?x\<bar> = ?x" using x0 by (simp only: abs_of_pos)
    ultimately show ?thesis by (simp only:)
  qed
  have "\<bar>fl ?x - ?x\<bar> \<le> 2 powi (exponent \<bar>?x\<bar> - 53)"
    using S assms(3) by (intro fl_error) simp
  also have "\<dots> \<le> 2 powi (- 47)"
    using e by (intro power_int_increasing) simp_all
  finally have err: "\<bar>fl ?x - ?x\<bar> \<le> 1 / 2 ^ 47"
    by (simp add: power_int_minus inverse_eq_divide)
  have gap: "1 / 2 ^ 47 < 1 / (2 * of_nat n :: rat)"
  proof -
    have "(of_nat n :: rat) < of_nat (2 ^ 46)" using assms(4) by (simp only: of_nat_less_iff)
    then have "2 * (of_nat n :: rat) < 2 ^ 47" by simp
    then show ?thesis using n by (simp add: field_simps)
  qed
  have kb: "of_int k - 1 / 2 \<le> ?x" "?x < of_int k + 1 / 2"
    unfolding k_def Math_round_def by linarith+
  have kpos: "0 \<le> k" "k \<le> 100"
    using kb x0 x100 by linarith+
  have upper: "fl ?x < of_int k + 1 / 2"
  proof -
    from kb(2) have "of_int S * 2 < (of_int k * 2 + 1) * (of_nat n :: rat)"
      using n by (simp add: field_simps)
    then have "of_int (S * 2) < (of_int ((k * 2 + 1) * int n) :: rat)" by simp
    then have "S * 2 < (k * 2 + 1) * int n" by (simp only: of_int_less_iff)
    then have "S * 2 + 1 \<le> (k * 2 + 1) * int n" by simp
    then have "(of_int (S * 2 + 1) :: rat) \<le> of_int ((k * 2 + 1) * int n)"
      by (simp only: of_int_le_iff)
    then have "of_int S * 2 + 1 \<le> (of_int k * 2 + 1) * (of_nat n :: rat)" by simp
    then have "?x + 1 / (2 * of_nat n) \<le> of_int k + 1 / 2"
      using n by (simp add: field_simps)
    then show ?thesis using err gap by linarith
  qed
  have lower: "of_int k - 1 / 2 \<le> fl ?x"
  proof (cases "?x = of_int k - 1 / 2")
    case True
    then have h: "?x = of_int (2 * k - 1) / 2" by simp
    have "0 < 2 * k - 1" using x0 h by simp
    moreover have "2 * k - 1 < 2 ^ 53" using kpos by simp
    ultimately have "fl (of_int (2 * k - 1) / 2) = of_int (2 * k - 1) / 2"
      by (rule fl_dyadic(1))
    then have "fl ?x = ?x" by (simp only: h)
    then show ?thesis using kb(1) by (simp only:)
  next
    case False
    with kb(1) have "of_int k - 1 / 2 < ?x" by simp
    then have "(of_int k * 2 - 1) * (of_nat n :: rat) < of_int S * 2"
      using n by (simp add: field_simps)
    then have "(of_int ((k * 2 - 1) * int n) :: rat) < of_int (S * 2)" by simp
    then have "(k * 2 - 1) * int n < S * 2" by (simp only: of_int_less_iff)
    then have "(k * 2 - 1) * int n + 1 \<le> S * 2" by simp
    then have "(of_int ((k * 2 - 1) * int n + 1) :: rat) \<le> of_int (S * 2)"
      by (simp only: of_int_le_iff)
    then have "(of_int k * 2 - 1) * (of_nat n :: rat) + 1 \<le> of_int S * 2" by simp
    then have "((of_int k * 2 - 1) * of_nat n + 1) / (2 * of_nat n) \<le>
               of_int S * 2 / (2 * of_nat n :: rat)"
      using n by (intro divide_right_mono) simp_all
    moreover have "((of_int k * 2 - 1) * of_nat n + 1) / (2 * of_nat n :: rat) =
               of_int k - 1 / 2 + 1 / (2 * of_nat n)"
      using n by (simp add: field_simps)
    moreover have "of_int S * 2 / (2 * of_nat n :: rat) = ?x" by simp
    ultimately have "of_int k - 1 / 2 + 1 / (2 * of_nat n) \<le> ?x"
      by (simp only:)
    then show ?thesis using err gap by linarith
  qed
  have "Math_round (fl ?x) = k"
    unfolding Math_round_def using upper lower by linarith
  then show ?thesis by (simp add: k_def)
qed

lemma floor_rat_numeral_div: "\<lfloor>numeral a / numeral b :: rat\<rfloor> = numeral a div numeral b"
  by (metis floor_divide_of_int_eq of_int_numeral)

lemma ceiling_rat_numeral_div: "\<lceil>numeral a / numeral b :: rat\<rceil> = - (- numeral a div numeral b)"
  by (metis ceiling_def floor_divide_of_int_eq minus_divide_left of_int_minus of_int_numeral)

lemmas fl_eval = fl_def exponent_def roundTiesToEven_def floor_log2.simps Let_def
  floor_rat_numeral_div ceiling_rat_numeral_div

text \<open>
  The largest double below 1 for \<open>Math.random()\<close>: the product and the sum are both
  rounded, and the score is 95.
\<close>

lemma simulatedScore_edge:
  "simulatedScore (1 - 1 / 2 ^ 52)
     \<lparr>dm_id = 2, dm_name = ''DeepFake Detection Challenge'', dm_description = [],
      dm_type = ''video'', dm_isActive = True\<rparr> = 95"
  by (simp add: simulatedScore_def fl_eval)

subsection \<open>C3: the overall confidence\<close>

lemma Math_round_roundsHalfUpTo: "roundsHalfUpTo q (Math_round q)"
  unfolding roundsHalfUpTo_def Math_round_def by linarith

lemma roundsHalfUpTo_unique:
  "roundsHalfUpTo q k \<Longrightarrow> roundsHalfUpTo q l \<Longrightarrow> k = l"
  unfolding roundsHalfUpTo_def by linarith

lemma getCompleteAnalysis_returns:
  "getMediaUpload st i = Some job \<Longrightarrow> getAnalysisResultsByMediaId st i \<noteq> [] \<Longrightarrow>
   \<exists>r. getCompleteAnalysis st i = Some r"
  by (cases "getAnalysisResultsByMediaId st i") (simp_all add: getCompleteAnalysis_def Let_def)

lemma getCompleteAnalysis_confidence:
  assumes "getCompleteAnalysis st i = Some r"
  shows "resp_overallConfidence r =
           Math_round (fl (foldl (\<lambda>sum result. fl (sum + of_int (ar_confidenceScore result))) 0
                             (getAnalysisResultsByMediaId st i)
                           / of_nat (length (getAnalysisResultsByMediaId st i)))) \<and>
         resp_isDeepfake r = (60 < resp_overallConfidence r)"
  using assms
  by (auto simp: getCompleteAnalysis_def Let_def split: option.splits list.splits)

lemma overallConfidence_in_range:
  assumes "xs \<noteq> []"
    and "\<forall>r \<in> set xs. 0 \<le> ar_confidenceScore r \<and> ar_confidenceScore r \<le> 100"
    and "length xs < 2 ^ 46"
  shows "Math_round (fl (foldl (\<lambda>sum result. fl (sum + of_int (ar_confidenceScore result))) 0 xs
                         / of_nat (length xs))) =
         Math_round (mean (map ar_confidenceScore xs))"
proof -
  let ?S = "sum_list (map ar_confidenceScore xs)"
  have len: "0 < length xs" using assms(1) by simp
  have b: "0 \<le> ?S" "?S \<le> 100 * int (length xs)"
    using sum_list_bounds [OF assms(2)] by simp_all
  have "int (length xs) < 2 ^ 46" using assms(3) by (simp flip: of_nat_less_iff)
  then have small: "0 + 100 * int (length xs) < 2 ^ 53" by simp
  have "foldl (\<lambda>sum result. fl (sum + of_int (ar_confidenceScore result))) (of_int 0) xs =
          of_int (0 + ?S)"
    using assms(2) small by (intro foldl_fl_sum) simp_all
  then have sum: "foldl (\<lambda>sum result. fl (sum + of_int (ar_confidenceScore result))) 0 xs =
          of_int ?S" by simp
  show ?thesis
    using Math_round_fl_quotient [OF b len assms(3)] by (simp add: sum mean_def)
qed

text \<open>
  C3. Let \<open>i\<close> be the id of a job of the store and \<open>scores\<close> the confidence scores of
  the stored results whose \<open>mediaId\<close> is \<open>i\<close>, in the order of the result map. Let there
  be at least one, fewer than \<open>2 ^ 46\<close>, each between 0 and 100 (the range of the data
  model). Then the report exists; its \<open>overallConfidence\<close> is the one integer that is the
  arithmetic mean of \<open>scores\<close> rounded to the nearest integer with halves up;
  \<open>isDeepfake\<close> holds exactly when it is above 60; and the scores 92 and 86 give 89
  and \<open>isDeepfake\<close>.
\<close>

theorem overallConfidence_rounded_mean:
  assumes "i \<in> fst ` set (mediaUploads st)"
    and "scores = map ar_confidenceScore
           (filter (\<lambda>result. ar_mediaId result = i) (map snd (analysisResults st)))"
    and "scores \<noteq> []"
    and "\<forall>s \<in> set scores. 0 \<le> s \<and> s \<le> 100"
    and "length scores < 2 ^ 46"
  shows "\<exists>r. getCompleteAnalysis st i = Some r \<and>
           roundsHalfUpTo (mean scores) (resp_overallConfidence r) \<and>
           (\<forall>k. roundsHalfUpTo (mean scores) k \<longrightarrow> k = resp_overallConfidence r) \<and>
           resp_isDeepfake r = (60 < resp_overallConfidence r) \<and>
           (scores = [92, 86] \<longrightarrow> resp_overallConfidence r = 89 \<and> resp_isDeepfake r)"
proof -
  let ?rs = "getAnalysisResultsByMediaId st i"
  have sc: "scores = map ar_confidenceScore ?rs"
    by (simp add: assms(2) getAnalysisResultsByMediaId_def values_of_def)
  from assms(1) have "map_of (mediaUploads st) i \<noteq> None"
    by (simp only: map_of_eq_None_iff not_not)
  then obtain job where job: "getMediaUpload st i = Some job"
    by (auto simp: getMediaUpload_def)
  have ne: "?rs \<noteq> []" using assms(3) sc by auto
  from getCompleteAnalysis_returns [OF job ne] obtain r where r: "getCompleteAnalysis st i = Some r"
    by blast
  note c = getCompleteAnalysis_confidence [OF r]
  have range: "\<forall>x \<in> set ?rs. 0 \<le> ar_confidenceScore x \<and> ar_confidenceScore x \<le> 100"
    using assms(4) sc by simp
  have len: "length ?rs < 2 ^ 46" using assms(5) sc by simp
  have conf: "resp_overallConfidence r = Math_round (mean scores)"
    using c overallConfidence_in_range [OF ne range len] by (simp add: sc)
  have 1: "roundsHalfUpTo (mean scores) (resp_overallConfidence r)"
    by (simp add: conf Math_round_roundsHalfUpTo)
  have 2: "\<forall>k. roundsHalfUpTo (mean scores) k \<longrightarrow> k = resp_overallConfidence r"
    using 1 roundsHalfUpTo_unique by blast
  have 3: "scores = [92, 86] \<longrightarrow> resp_overallConfidence r = 89 \<and> resp_isDeepfake r"
  proof
    assume s: "scores = [92, 86]"
    have "roundsHalfUpTo (mean [92, 86]) 89" by (simp add: mean_def roundsHalfUpTo_def)
    then have "resp_overallConfidence r = 89" using 2 s by simp
    then show "resp_overallConfidence r = 89 \<and> resp_isDeepfake r" using c by simp
  qed
  show ?thesis using r 1 2 3 c by blast
qed

text \<open>
  C3, at the store with several jobs: job 1 (92 and 86) reports 89, job 2 (92 and 77,
  mean 84.5) reports 85, both above 60; job 4 (55 alone) reports 55 and is no deepfake.
\<close>

theorem overallConfidence_rounded_mean_witness:
  "map_option resp_overallConfidence (getCompleteAnalysis manyJobsStore 1) = Some 89 \<and>
   map_option resp_isDeepfake (getCompleteAnalysis manyJobsStore 1) = Some True \<and>
   map_option resp_overallConfidence (getCompleteAnalysis manyJobsStore 2) = Some 85 \<and>
   map_option resp_isDeepfake (getCompleteAnalysis manyJobsStore 2) = Some True \<and>
   map_option resp_overallConfidence (getCompleteAnalysis manyJobsStore 4) = Some 55 \<and>
   map_option resp_isDeepfake (getCompleteAnalysis manyJobsStore 4) = Some False"
proof -
  have j: "1 \<in> fst ` set (mediaUploads manyJobsStore)" "2 \<in> fst ` set (mediaUploads manyJobsStore)"
    "4 \<in> fst ` set (mediaUploads manyJobsStore)"
    by (simp_all add: manyJobsStore_ids)
  have r1: "roundsHalfUpTo (mean [92, 86]) 89" by (simp add: mean_def roundsHalfUpTo_def)
  have r2: "roundsHalfUpTo (mean [92, 77]) 85" by (simp add: mean_def roundsHalfUpTo_def)
  have r4: "roundsHalfUpTo (mean [55]) 55" by (simp add: mean_def roundsHalfUpTo_def)
  from overallConfidence_rounded_mean [where st = manyJobsStore and i = 1 and scores = "[92, 86]",
      OF j(1) manyJobsStore_scores(1) [symmetric]] r1
  have a: "map_option resp_overallConfidence (getCompleteAnalysis manyJobsStore 1) = Some 89 \<and>
           map_option resp_isDeepfake (getCompleteAnalysis manyJobsStore 1) = Some True"
    by auto
  from overallConfidence_rounded_mean [where st = manyJobsStore and i = 2 and scores = "[92, 77]",
      OF j(2) manyJobsStore_scores(2) [symmetric]] r2
  have b: "map_option resp_overallConfidence (getCompleteAnalysis manyJobsStore 2) = Some 85 \<and>
           map_option resp_isDeepfake (getCompleteAnalysis manyJobsStore 2) = Some True"
    by auto
  from overallConfidence_rounded_mean [where st = manyJobsStore and i = 4 and scores = "[55]",
      OF j(3) manyJobsStore_scores(3) [symmetric]] r4
  have c: "map_option resp_overallConfidence (getCompleteAnalysis manyJobsStore 4) = Some 55 \<and>
           map_option resp_isDeepfake (getCompleteAnalysis manyJobsStore 4) = Some False"
    by auto
  show ?thesis using a b c by simp
qed

text \<open>
  Outside that range the sum is rounded. With the scores \<open>2 ^ 53\<close> and 1 the sum
  \<open>2 ^ 53 + 1\<close> is no double and becomes \<open>2 ^ 53\<close>; the report says \<open>2 ^ 52\<close>, the
  mean rounded half up is \<open>2 ^ 52 + 1\<close>.
\<close>

lemma foldl_scores:
  "foldl (\<lambda>sum result. fl (sum + of_int (ar_confidenceScore result))) a rs =
   foldl (\<lambda>sum x. fl (sum + of_int x)) a (map ar_confidenceScore rs)"
  by (induction rs arbitrary: a) simp_all

lemma fl_large: "fl 9007199254740992 = 9007199254740992"
  "fl 9007199254740993 = 9007199254740992"
  "fl 4503599627370496 = 4503599627370496"
  by (simp_all add: fl_eval)

lemma largeScore_report:
  "map_option resp_overallConfidence (getCompleteAnalysis largeScoreStore 1) =
     Some 4503599627370496 \<and>
   roundsHalfUpTo (mean [9007199254740992, 1]) 4503599627370497"
proof -
  have ne: "getAnalysisResultsByMediaId largeScoreStore 1 \<noteq> []"
    using largeScoreStore_scores by auto
  from getCompleteAnalysis_returns [OF largeScoreStore_job ne]
  obtain r where r: "getCompleteAnalysis largeScoreStore 1 = Some r" by blast
  have len: "length (getAnalysisResultsByMediaId largeScoreStore 1) = 2"
    using largeScoreStore_scores [THEN arg_cong, of length] by simp
  have "resp_overallConfidence r = 4503599627370496"
    using getCompleteAnalysis_confidence [OF r]
    by (simp add: foldl_scores largeScoreStore_scores len fl_large Math_round_def
        floor_rat_numeral_div)
  moreover have "roundsHalfUpTo (mean [9007199254740992, 1]) 4503599627370497"
    by (simp add: mean_def roundsHalfUpTo_def)
  ultimately show ?thesis by (simp add: r)
qed

subsection \<open>C5: the representative result\<close>





subsection \<open>C4: the manipulation types of the report\<close>

text \<open>
  C4, evaluated on the sample job analysed by models 1 and 3. Each run of the loop
  builds its own three entries, so the \<open>Set\<close> holds six different objects and the
  report lists every (type, confidence) pair twice: equal pairs do not collapse.
\<close>

theorem manipulationTypes_not_collapsed:
  "map ar_modelId (getAnalysisResultsByMediaId analysedStore 1) = [1, 3] \<and>
   map_option (\<lambda>r. map (\<lambda>m. (mt_type m, mt_confidence m)) (resp_manipulationTypes r))
     (getCompleteAnalysis analysedStore 1) =
   Some [(''Face Swap'', 95), (''Face Swap'', 95), (''Expression Manipulation'', 82),
         (''Expression Manipulation'', 82), (''Voice Synthesis'', 56), (''Voice Synthesis'', 56)]"
  by (simp add: analysedStore_def jobStore_eval newMemStorage_eval run_defs fixedClock_def
      fixedRandom_def getCompleteAnalysis_def Array_sort_def Array_from_Set_def
      manipulationTypes_of_def)

subsection \<open>C2: a dispatch in which an analysis throws\<close>

lemma createAnalysisResult_mediaUploads:
  "mediaUploads (snd (createAnalysisResult now result st)) = mediaUploads st"
  by (simp add: createAnalysisResult_eq)

lemma createAnalysisResult_byMedia:
  assumes "resultIdsFresh st"
  shows "getAnalysisResultsByMediaId (snd (createAnalysisResult now result st)) (iar_mediaId result) =
         getAnalysisResultsByMediaId st (iar_mediaId result) @ [fst (createAnalysisResult now result st)]"
  using createAnalysisResult_appends [OF assms, of now result]
  by (simp add: getAnalysisResultsByMediaId_def values_of_def createAnalysisResult_eq)

lemma not_Thrown_Inr:
  "x \<noteq> Inl Thrown \<Longrightarrow> \<exists>score details a'. x = Inr (score, details, a')"
proof (cases x)
  case (Inl e)
  assume "x \<noteq> Inl Thrown"
  with Inl show ?thesis by (cases e) simp
next
  case (Inr p)
  then show ?thesis by (cases p) auto
qed

text \<open>
  The loop over a prefix of models whose analyses all return: one result per model is
  appended for the job, in the order of the models; the jobs are not touched.
\<close>

lemma analyseModels_prefix:
  assumes "resultIdsFresh st"
    and "\<forall>a. \<forall>m \<in> set finished. analyse a isVideo m \<noteq> Inl Thrown"
  shows "\<exists>a' st'. analyseModels clock analyse i isVideo (finished @ remaining) (a, st) =
             analyseModels clock analyse i isVideo remaining (a', st') \<and>
           resultIdsFresh st' \<and> mediaUploads st' = mediaUploads st \<and>
           map ar_modelId (getAnalysisResultsByMediaId st' i) =
             map ar_modelId (getAnalysisResultsByMediaId st i) @ map dm_id finished"
  using assms
proof (induction finished arbitrary: a st)
  case Nil
  show ?case
    by (rule exI [of _ a], rule exI [of _ st]) (simp add: Nil.prems(1))
next
  case (Cons m ms)
  from Cons.prems(2) have "analyse a isVideo m \<noteq> Inl Thrown" by simp
  then obtain score details a1 where ok: "analyse a isVideo m = Inr (score, details, a1)"
    using not_Thrown_Inr by blast
  let ?req = "\<lparr>iar_mediaId = i, iar_modelId = dm_id m, iar_confidenceScore = score,
                iar_resultDetails = details\<rparr>"
  let ?st1 = "snd (createAnalysisResult (clock m) ?req st)"
  have step: "analyseModels clock analyse i isVideo ((m # ms) @ remaining) (a, st) =
              analyseModels clock analyse i isVideo (ms @ remaining) (a1, ?st1)"
    using ok by simp
  have fresh1: "resultIdsFresh ?st1"
    using Cons.prems(1) by (rule createAnalysisResult_fresh)
  have media1: "mediaUploads ?st1 = mediaUploads st"
    by (rule createAnalysisResult_mediaUploads)
  have res1: "map ar_modelId (getAnalysisResultsByMediaId ?st1 i) =
              map ar_modelId (getAnalysisResultsByMediaId st i) @ [dm_id m]"
    using createAnalysisResult_byMedia [OF Cons.prems(1), of "clock m" ?req]
    by (simp add: createAnalysisResult_eq)
  from Cons.prems(2) have rest: "\<forall>a. \<forall>m \<in> set ms. analyse a isVideo m \<noteq> Inl Thrown" by simp
  from Cons.IH [OF fresh1 rest, of a1] obtain a' st' where
    ih: "analyseModels clock analyse i isVideo (ms @ remaining) (a1, ?st1) =
           analyseModels clock analyse i isVideo remaining (a', st')"
      "resultIdsFresh st'" "mediaUploads st' = mediaUploads ?st1"
      "map ar_modelId (getAnalysisResultsByMediaId st' i) =
         map ar_modelId (getAnalysisResultsByMediaId ?st1 i) @ map dm_id ms"
    by blast
  show ?case
    apply (rule exI [of _ a'], rule exI [of _ st'])
    using step ih media1 res1 by simp
qed

lemma resultIdsFresh_updateMediaStatus:
  "resultIdsFresh st \<Longrightarrow> resultIdsFresh (snd (updateMediaStatus i s st))"
  by (simp add: resultIdsFresh_def updateMediaStatus_analysisResults updateMediaStatus_counter)

lemma getDetectionModels_updateMediaStatus:
  "getDetectionModels (snd (updateMediaStatus i s st)) = getDetectionModels st"
  by (simp add: updateMediaStatus_def getDetectionModels_def Let_def split: option.splits)

text \<open>
  C2, as stated, fails: nothing removes the results that were stored before the throw.
  The sample job is dispatched with the models 1, 2 and 3 and the analysis throws for
  model 2, the second of the three. The job ends \<open>failed\<close>, and the result of model 1
  is in the store.
\<close>

theorem failed_dispatch_counterexample:
  "map dm_id (modelsToUse [JNum 1, JNum 2, JNum 3] True (getDetectionModels jobStore)) = [1, 2, 3] \<and>
   map_option mu_status (getMediaUpload failedStore 1) = Some ''failed'' \<and>
   map (\<lambda>r. (ar_mediaId r, ar_modelId r)) (getAnalysisResultsByMediaId failedStore 1) = [(1, 1)]"
  by (simp add: failedStore_def throwingFor_def jobStore_eval newMemStorage_eval run_defs
      fixedClock_def fixedRandom_def)

text \<open>
  C2, amended. Let the job exist, let the models to use be \<open>finished @ model # later\<close>,
  let the analysis return for every model of \<open>finished\<close> and throw for \<open>model\<close>. Then
  the dispatch ends with the job \<open>failed\<close>, and the results of the job are those it had
  before followed by one result for each model of \<open>finished\<close>, in order: nothing is
  stored for \<open>model\<close> or for a later one, and nothing stored earlier is removed.
\<close>

theorem failed_dispatch_keeps_earlier_results:
  assumes "resultIdsFresh st"
    and "getMediaUpload st i = Some job"
    and "modelsToUse selectedModels (startsWith (mu_filetype job) ''video/'')
           (getDetectionModels st) = finished @ model # later"
    and "\<forall>a. \<forall>m \<in> set finished.
           analyse a (startsWith (mu_filetype job) ''video/'') m \<noteq> Inl Thrown"
    and "\<forall>a. analyse a (startsWith (mu_filetype job) ''video/'') model = Inl Thrown"
  shows "map_option mu_status
           (getMediaUpload (snd (dispatchAnalysis clock analyse i selectedModels (a, st))) i) =
           Some ''failed'' \<and>
         map ar_modelId
           (getAnalysisResultsByMediaId
              (snd (dispatchAnalysis clock analyse i selectedModels (a, st))) i) =
           map ar_modelId (getAnalysisResultsByMediaId st i) @ map dm_id finished"
proof -
  let ?v = "startsWith (mu_filetype job) ''video/''"
  let ?job1 = "job\<lparr>mu_status := ''processing''\<rparr>"
  let ?st1 = "snd (updateMediaStatus i ''processing'' st)"
  have job1: "getMediaUpload ?st1 i = Some ?job1"
    using assms(2) by (simp add: updateMediaStatus_Some getMediaUpload_update)
  have fresh1: "resultIdsFresh ?st1"
    using assms(1) by (rule resultIdsFresh_updateMediaStatus)
  have res1: "getAnalysisResultsByMediaId ?st1 i = getAnalysisResultsByMediaId st i"
    by (simp add: getAnalysisResultsByMediaId_def updateMediaStatus_analysisResults)
  from analyseModels_prefix [where st = ?st1 and finished = finished and analyse = analyse
      and isVideo = ?v and clock = clock and i = i and remaining = "model # later" and a = a,
      OF fresh1 assms(4)]
  obtain a2 st2 where
    run: "analyseModels clock analyse i ?v (finished @ model # later) (a, ?st1) =
            analyseModels clock analyse i ?v (model # later) (a2, st2)"
    and media2: "mediaUploads st2 = mediaUploads ?st1"
    and res2: "map ar_modelId (getAnalysisResultsByMediaId st2 i) =
                 map ar_modelId (getAnalysisResultsByMediaId ?st1 i) @ map dm_id finished"
    by blast
  have thrown: "analyseModels clock analyse i ?v (model # later) (a2, st2) = (Inl Thrown, a2, st2)"
    using assms(5) by simp
  have pm: "processMedia clock analyse i selectedModels (a, st) = (Inl Thrown, a2, st2)"
    using job1 assms(3) run thrown
    by (simp add: processMedia_def Let_def getDetectionModels_updateMediaStatus)
  have disp: "snd (dispatchAnalysis clock analyse i selectedModels (a, st)) =
              snd (updateMediaStatus i ''failed'' st2)"
    by (simp add: dispatchAnalysis_def pm)
  have job2: "getMediaUpload st2 i = Some ?job1"
    using job1 media2 by (simp add: getMediaUpload_def)
  have status: "map_option mu_status (getMediaUpload (snd (updateMediaStatus i ''failed'' st2)) i) =
                Some ''failed''"
    using job2 by (simp add: updateMediaStatus_Some getMediaUpload_update)
  have results: "getAnalysisResultsByMediaId (snd (updateMediaStatus i ''failed'' st2)) i =
                 getAnalysisResultsByMediaId st2 i"
    by (simp add: getAnalysisResultsByMediaId_def updateMediaStatus_analysisResults)
  show ?thesis using disp status results res2 res1 by simp
qed

text \<open>
  C2, amended, at the sample job: models 1, 2 and 3 are used, the analysis throws for
  model 2; the job is \<open>failed\<close> and has the one result of model 1.
\<close>

theorem failed_dispatch_keeps_earlier_results_witness:
  "resultIdsFresh jobStore \<and>
   map dm_id (modelsToUse [JNum 1, JNum 2, JNum 3] True (getDetectionModels jobStore)) = [1, 2, 3] \<and>
   map_option mu_status (getMediaUpload failedStore 1) = Some ''failed'' \<and>
   map ar_modelId (getAnalysisResultsByMediaId failedStore 1) = [1]"
proof -
  let ?job = "\<lparr>mu_id = 1, mu_filename = ''clip.mp4'', mu_filesize = 4096,
     mu_filetype = ''video/mp4'', mu_userId = None, mu_uploadedAt = 1000,
     mu_status = ''pending''\<rparr>"
  let ?m1 = "\<lparr>dm_id = 1, dm_name = ''FaceForensics++'',
              dm_description = ''Specialized in facial manipulation detection'',
              dm_type = ''both'', dm_isActive = True\<rparr>"
  let ?m2 = "\<lparr>dm_id = 2, dm_name = ''DeepFake Detection Challenge'',
              dm_description = ''Facebook's DFDC model for video analysis'',
              dm_type = ''video'', dm_isActive = True\<rparr>"
  let ?m3 = "\<lparr>dm_id = 3, dm_name = ''CNN-LSTM'',
              dm_description = ''Temporal inconsistency detection'',
              dm_type = ''video'', dm_isActive = True\<rparr>"
  have job: "getMediaUpload jobStore 1 = Some ?job"
    by (simp add: jobStore_eval newMemStorage_eval getMediaUpload_def)
  have sel: "modelsToUse [JNum 1, JNum 2, JNum 3] (startsWith (mu_filetype ?job) ''video/'')
           (getDetectionModels jobStore) = [?m1] @ ?m2 # [?m3]"
    by (simp add: jobStore_eval newMemStorage_eval getDetectionModels_def values_of_def
        modelsToUse_def typeMatches_def)
  have ok: "\<forall>a. \<forall>m \<in> set [?m1].
           throwingFor 2 a (startsWith (mu_filetype ?job) ''video/'') m \<noteq> Inl Thrown"
    by (simp add: throwingFor_def simulated_def)
  have bad: "\<forall>a. throwingFor 2 a (startsWith (mu_filetype ?job) ''video/'') ?m2 = Inl Thrown"
    by (simp add: throwingFor_def)
  have none: "getAnalysisResultsByMediaId jobStore 1 = []"
    by (simp add: jobStore_eval newMemStorage_eval getAnalysisResultsByMediaId_def values_of_def)
  from failed_dispatch_keeps_earlier_results [where st = jobStore and i = 1 and job = ?job
      and selectedModels = "[JNum 1, JNum 2, JNum 3]" and finished = "[?m1]" and model = ?m2
      and later = "[?m3]" and analyse = "throwingFor 2" and clock = fixedClock and a = 0,
      OF jobStore_fresh job sel ok bad]
  have "map_option mu_status (getMediaUpload failedStore 1) = Some ''failed'' \<and>
        map ar_modelId (getAnalysisResultsByMediaId failedStore 1) = [1]"
    by (simp add: failedStore_def none)
  moreover have "map dm_id (modelsToUse [JNum 1, JNum 2, JNum 3] True
      (getDetectionModels jobStore)) = [1, 2, 3]"
    using sel by simp
  ultimately show ?thesis using jobStore_fresh by simp
qed

end
